theory Spec2Isabelle
  imports Main "HOL-Library.Sublist"
begin

section \<open>ApplicationIntegrationToolset: a shallow embedding\<close>

text \<open>
  The embedded file is
  \<^verbatim>\<open>google/adk/tools/application_integration_tool/application_integration_toolset.py\<close>.
  Its class has three methods: the constructor \<^verbatim>\<open>__init__\<close>, the private
  \<^verbatim>\<open>_parse_spec_to_tools\<close> and the accessor \<^verbatim>\<open>get_tools\<close>. The constructor talks to
  collaborators that live in other files (the two API clients, the pydantic credential
  model, the service-account helper and the OpenAPI parser); they are parameters of the
  model, collected in the record \<open>env\<close>, and every call to one of them is logged in a
  trace of events so that the number and the order of the calls can be stated.
\<close>

subsection \<open>Python values\<close>

text \<open>
  \<^verbatim>\<open>Optional[str]\<close> is \<open>string option\<close>. Python's truth test of such a value
  (\<^verbatim>\<open>if x:\<close>, \<^verbatim>\<open>x and y\<close>) is false for \<^verbatim>\<open>None\<close> and for the empty string, list or dict.
\<close>

definition truthy :: "'a list option \<Rightarrow> bool" where
  "truthy x = (case x of None \<Rightarrow> False | Some s \<Rightarrow> s \<noteq> [])"

text \<open>What an f-string prints for an \<^verbatim>\<open>Optional[str]\<close>.\<close>

definition format_str :: "string option \<Rightarrow> string" where
  "format_str x = (case x of None \<Rightarrow> ''None'' | Some s \<Rightarrow> s)"

datatype error =
    ValueError string
  | TypeError string
  | ValidationError string
  | UpstreamError string

text \<open>\<^verbatim>\<open>x += s\<close> on an \<^verbatim>\<open>Optional[str]\<close>: string concatenation, a TypeError on \<^verbatim>\<open>None\<close>.\<close>

definition str_iadd :: "string option \<Rightarrow> string \<Rightarrow> error + string" where
  "str_iadd x s =
     (case x of
        None \<Rightarrow> Inl (TypeError (''unsupported operand type(s) for +=: 'NoneType' and 'str'' @ [CHR 0x27]))
      | Some t \<Rightarrow> Inr (t @ s))"

text \<open>
  A Python \<^verbatim>\<open>dict\<close> keeps its keys in insertion order; assigning to a key that is already
  there replaces the value and leaves the key where it is.
\<close>

fun dict_setitem :: "'k \<Rightarrow> 'v \<Rightarrow> ('k \<times> 'v) list \<Rightarrow> ('k \<times> 'v) list" where
  "dict_setitem k v [] = [(k, v)]"
| "dict_setitem k v ((k', v') # kvs) =
     (if k' = k then (k, v) # kvs else (k', v') # dict_setitem k v kvs)"

definition dict_values :: "('k \<times> 'v) list \<Rightarrow> 'v list" where
  "dict_values d = map snd d"

subsection \<open>The constructor's arguments and the instance\<close>

text \<open>
  The arguments of \<^verbatim>\<open>__init__\<close>, lines 99 to 115. \<^verbatim>\<open>entity_operations\<close> and
  \<^verbatim>\<open>actions\<close> are annotated \<^verbatim>\<open>Optional[str]\<close> but documented as a mapping from entity
  names to operation names and as a list of action names; only their truth value is
  used here.
\<close>

record config =
  project :: string
  location :: string
  integration :: "string option"
  trigger :: "string option"
  connection :: "string option"
  entity_operations :: "(string \<times> string list) list option"
  actions :: "string list option"
  tool_name :: "string option"
  tool_instructions :: "string option"
  service_account_json :: "string option"

text \<open>\<^verbatim>\<open>RestApiTool\<close>: its \<^verbatim>\<open>name\<close> attribute and the rest of the object.\<close>

record 'b rest_api_tool =
  name :: string
  operation :: 'b

text \<open>
  The instance: the ten attributes copied from the arguments (lines 174 to 183) and
  \<^verbatim>\<open>generated_tools\<close>, a dict from tool names to tools (line 184).
\<close>

record 'b toolset = config +
  generated_tools :: "(string \<times> 'b rest_api_tool) list"

definition new_self :: "config \<Rightarrow> 'b toolset" where
  "new_self cfg =
     \<lparr>project = project cfg, location = location cfg, integration = integration cfg,
      trigger = trigger cfg, connection = connection cfg,
      entity_operations = entity_operations cfg, actions = actions cfg,
      tool_name = tool_name cfg, tool_instructions = tool_instructions cfg,
      service_account_json = service_account_json cfg, generated_tools = []\<rparr>"

subsection \<open>The collaborators\<close>

text \<open>
  Modelled from the spec: \<^verbatim>\<open>IntegrationClient\<close> and \<^verbatim>\<open>ConnectionsClient\<close> are classes of
  the repository outside the embedded file. The spec gives the Spec Provider as three
  operations over the constructor's arguments, so a client object is the record of the
  arguments it was built from and building it calls nothing.
\<close>

record integration_client =
  ic_project :: string
  ic_location :: string
  ic_integration :: "string option"
  ic_trigger :: "string option"
  ic_connection :: "string option"
  ic_entity_operations :: "(string \<times> string list) list option"
  ic_actions :: "string list option"
  ic_service_account_json :: "string option"

record connections_client =
  cc_project :: string
  cc_location :: string
  cc_connection :: "string option"
  cc_service_account_json :: "string option"

definition IntegrationClient ::
  "string \<Rightarrow> string \<Rightarrow> string option \<Rightarrow> string option \<Rightarrow> string option
   \<Rightarrow> (string \<times> string list) list option \<Rightarrow> string list option \<Rightarrow> string option
   \<Rightarrow> integration_client" where
  "IntegrationClient p l i t c eo a j =
     \<lparr>ic_project = p, ic_location = l, ic_integration = i, ic_trigger = t,
      ic_connection = c, ic_entity_operations = eo, ic_actions = a,
      ic_service_account_json = j\<rparr>"

definition ConnectionsClient ::
  "string \<Rightarrow> string \<Rightarrow> string option \<Rightarrow> string option \<Rightarrow> connections_client" where
  "ConnectionsClient p l c j =
     \<lparr>cc_project = p, cc_location = l, cc_connection = c, cc_service_account_json = j\<rparr>"

text \<open>
  Modelled from the spec: the result of \<^verbatim>\<open>get_connection_details\<close>, which the spec
  types as \<^verbatim>\<open>{serviceName: string, host: string}\<close>.
\<close>

record connection_details =
  serviceName :: string
  host :: string

text \<open>
  Modelled from the spec: the credential model of \<^verbatim>\<open>auth_credential.py\<close> is outside
  the embedded file. The records have the fields that the constructor calls of lines 230
  to 245 name. A field that a call does not pass has the default of the model:
  \<^verbatim>\<open>service_account_credential\<close> is \<^verbatim>\<open>None\<close> and \<^verbatim>\<open>use_default_credential\<close> is
  \<^verbatim>\<open>False\<close>, so that only the credential built without a payload signals the
  default credential.
\<close>

datatype auth_credential_types = SERVICE_ACCOUNT

record 'k service_account =
  service_account_credential :: "'k option"
  scopes :: "string list"
  use_default_credential :: "bool option"

record 'k auth_credential =
  auth_type :: auth_credential_types
  service_account :: "'k service_account"

datatype 's auth_scheme = HTTPBearer "string option" | HelperScheme 's

datatype ('d, 'k, 's) event =
    Get_openapi_spec_for_integration integration_client
  | Get_connection_details connections_client
  | Get_openapi_spec_for_connection integration_client "string option" string
  | Model_validate_json string
  | OpenAPIToolset_get_tools 'd "'k auth_credential" "'s auth_scheme"

fun is_parser_call :: "('d, 'k, 's) event \<Rightarrow> bool" where
  "is_parser_call (OpenAPIToolset_get_tools _ _ _) = True"
| "is_parser_call _ = False"

fun is_spec_provider_call :: "('d, 'k, 's) event \<Rightarrow> bool" where
  "is_spec_provider_call (Get_openapi_spec_for_integration _) = True"
| "is_spec_provider_call (Get_connection_details _) = True"
| "is_spec_provider_call (Get_openapi_spec_for_connection _ _ _) = True"
| "is_spec_provider_call _ = False"

text \<open>
  What the collaborators answer. \<open>'d\<close> is the OpenAPI document, \<open>'k\<close> the parsed
  \<^verbatim>\<open>ServiceAccountCredential\<close>, \<open>'s\<close> the scheme the service-account helper builds and
  \<open>'b\<close> the body of a tool; \<open>Inl\<close> is a raised exception.
\<close>

record ('d, 'k, 's, 'b) env =
  get_openapi_spec_for_integration :: "integration_client \<Rightarrow> error + 'd"
  get_connection_details :: "connections_client \<Rightarrow> error + connection_details"
  get_openapi_spec_for_connection ::
    "integration_client \<Rightarrow> string option \<Rightarrow> string \<Rightarrow> error + 'd"
  model_validate_json :: "string \<Rightarrow> error + 'k"
  helper_scheme :: "'k service_account \<Rightarrow> 's"
  openapi_toolset_get_tools ::
    "'d \<Rightarrow> 'k auth_credential \<Rightarrow> 's auth_scheme \<Rightarrow> error + 'b rest_api_tool list"

text \<open>
  Modelled from the spec: \<^verbatim>\<open>service_account_scheme_credential\<close> of
  \<^verbatim>\<open>openapi_tool/auth/auth_helpers.py\<close> is outside the embedded file. The spec says that
  the credential wraps the service account it is given and that the concrete shape of
  the scheme is the helper's; the scheme is therefore the parameter \<open>helper_scheme\<close>.
\<close>

definition service_account_scheme_credential ::
  "('d, 'k, 's, 'b) env \<Rightarrow> 'k service_account \<Rightarrow> 's auth_scheme \<times> 'k auth_credential" where
  "service_account_scheme_credential env config =
     (HelperScheme (helper_scheme env config),
      \<lparr>auth_type = SERVICE_ACCOUNT, service_account = config\<rparr>)"

subsection \<open>Computations that log calls and may raise\<close>

type_synonym ('e, 'a) res = "'e list \<times> (error + 'a)"

definition ret :: "'a \<Rightarrow> ('e, 'a) res" where
  "ret a = ([], Inr a)"

definition raise :: "error \<Rightarrow> ('e, 'a) res" where
  "raise e = ([], Inl e)"

definition lift :: "error + 'a \<Rightarrow> ('e, 'a) res" where
  "lift r = ([], r)"

definition call :: "'e \<Rightarrow> error + 'a \<Rightarrow> ('e, 'a) res" where
  "call ev r = ([ev], r)"

definition bnd :: "('e, 'a) res \<Rightarrow> ('a \<Rightarrow> ('e, 'b) res) \<Rightarrow> ('e, 'b) res" where
  "bnd m f =
     (case snd m of
        Inl e \<Rightarrow> (fst m, Inl e)
      | Inr a \<Rightarrow> (fst m @ fst (f a), snd (f a)))"

subsection \<open>The three methods\<close>

definition cloud_platform :: string where
  "cloud_platform = ''https://www.googleapis.com/auth/cloud-platform''"

text \<open>The loop of lines 251 and 252.\<close>

definition register_tools :: "'b rest_api_tool list \<Rightarrow> 'b toolset \<Rightarrow> 'b toolset" where
  "register_tools tools self =
     fold (\<lambda>tool s.
             s\<lparr>generated_tools := dict_setitem (name tool) tool (generated_tools s)\<rparr>)
       tools self"

text \<open>\<^verbatim>\<open>_parse_spec_to_tools\<close>, lines 224 to 252.\<close>

definition parse_spec_to_tools ::
  "('d, 'k, 's, 'b) env \<Rightarrow> 'b toolset \<Rightarrow> 'd \<Rightarrow> (('d, 'k, 's) event, 'b toolset) res" where
  "parse_spec_to_tools env self spec_dict =
     bnd (if truthy (service_account_json self) then
            bnd (call (Model_validate_json (the (service_account_json self)))
                   (model_validate_json env (the (service_account_json self))))
              (\<lambda>sa_credential.
                 ret (service_account_scheme_credential env
                        \<lparr>service_account_credential = Some sa_credential,
                         scopes = [cloud_platform],
                         use_default_credential = Some False\<rparr>))
          else
            ret (HTTPBearer (Some ''JWT''),
                 \<lparr>auth_type = SERVICE_ACCOUNT,
                  service_account =
                    \<lparr>service_account_credential = None,
                     scopes = [cloud_platform],
                     use_default_credential = Some True\<rparr>\<rparr>))
       (\<lambda>(auth_scheme, auth_credential).
          bnd (call (OpenAPIToolset_get_tools spec_dict auth_credential auth_scheme)
                 (openapi_toolset_get_tools env spec_dict auth_credential auth_scheme))
            (\<lambda>tools. ret (register_tools tools self)))"

text \<open>The text that lines 203 to 212 append to \<^verbatim>\<open>tool_instructions\<close>.\<close>

definition connection_directive :: "config \<Rightarrow> connection_details \<Rightarrow> string" where
  "connection_directive cfg connection_details =
     ''ALWAYS use serviceName = ''
     @ serviceName connection_details
     @ '', host = ''
     @ host connection_details
     @ '' and the connection name = ''
     @ (''projects/'' @ project cfg @ ''/locations/'' @ location cfg
        @ ''/connections/'' @ format_str (connection cfg) @ '' when''
        @ '' using this tool'')
     @ ''. DONOT ask the user for these values as you already have those.''"

definition config_error :: error where
  "config_error =
     ValueError (''Either (integration and trigger) or (connection and''
                 @ '' (entity_operations or actions)) should be provided.'')"

text \<open>\<^verbatim>\<open>__init__\<close>, lines 174 to 222.\<close>

definition init ::
  "('d, 'k, 's, 'b) env \<Rightarrow> config \<Rightarrow> (('d, 'k, 's) event, 'b toolset) res" where
  "init env cfg =
     (let self = new_self cfg;
          integration_client =
            IntegrationClient (project cfg) (location cfg) (integration cfg) (trigger cfg)
              (connection cfg) (entity_operations cfg) (actions cfg)
              (service_account_json cfg)
      in
        if truthy (integration cfg) \<and> truthy (trigger cfg) then
          bnd (call (Get_openapi_spec_for_integration integration_client)
                 (get_openapi_spec_for_integration env integration_client))
            (parse_spec_to_tools env self)
        else if truthy (connection cfg)
                \<and> (truthy (entity_operations cfg) \<or> truthy (actions cfg)) then
          (let connections_client =
                 ConnectionsClient (project cfg) (location cfg) (connection cfg)
                   (service_account_json cfg)
           in
             bnd (call (Get_connection_details connections_client)
                    (get_connection_details env connections_client))
               (\<lambda>connection_details.
                  bnd (lift (str_iadd (tool_instructions cfg)
                               (connection_directive cfg connection_details)))
                    (\<lambda>tool_instructions'.
                       bnd (call (Get_openapi_spec_for_connection integration_client
                                    (tool_name cfg) tool_instructions')
                              (get_openapi_spec_for_connection env integration_client
                                 (tool_name cfg) tool_instructions'))
                         (parse_spec_to_tools env self))))
        else raise config_error)"

text \<open>
  \<^verbatim>\<open>get_tools\<close>, lines 254 and 255: a fresh list of the dict's values; the instance is
  returned with it, unchanged, so that repeated calls can be chained.
\<close>

definition get_tools :: "'b toolset \<Rightarrow> 'b toolset \<times> 'b rest_api_tool list" where
  "get_tools self = (self, dict_values (generated_tools self))"


subsection \<open>The registry as the spec words it\<close>

text \<open>
  The spec's reading of the registry, to be compared with the dict of the code: the
  names in the order of their first appearance, and under each name the last tool that
  carries it.
\<close>

fun first_occurrences :: "'a list \<Rightarrow> 'a list" where
  "first_occurrences [] = []"
| "first_occurrences (x # xs) = x # first_occurrences (filter (\<lambda>y. y \<noteq> x) xs)"

definition last_write_wins :: "'b rest_api_tool list \<Rightarrow> 'b rest_api_tool list" where
  "last_write_wins tools =
     map (\<lambda>n. last (filter (\<lambda>t. name t = n) tools)) (first_occurrences (map name tools))"

subsection \<open>Stubbed collaborators and sample configurations\<close>

text \<open>
  The stubs of the spec's example: the connection has serviceName \<^verbatim>\<open>s\<close> and host
  \<^verbatim>\<open>h\<close>, every document lists the operations \<^verbatim>\<open>op1\<close> and \<^verbatim>\<open>op2\<close>, the parser makes
  one tool per operation (numbered, to tell tools of one name apart), and the only
  well-formed service-account payload is \<^verbatim>\<open>{}\<close>.
\<close>

definition stub_env :: "(string list, string, string, nat) env" where
  "stub_env =
     \<lparr>get_openapi_spec_for_integration = (\<lambda>_. Inr [''op1'', ''op2'']),
      get_connection_details = (\<lambda>_. Inr \<lparr>serviceName = ''s'', host = ''h''\<rparr>),
      get_openapi_spec_for_connection = (\<lambda>_ _ _. Inr [''op1'', ''op2'']),
      model_validate_json =
        (\<lambda>j. if j = ''{}'' then Inr j else Inl (ValidationError ''Invalid JSON'')),
      helper_scheme = (\<lambda>_. ''bearer''),
      openapi_toolset_get_tools =
        (\<lambda>d _ _. Inr (map (\<lambda>(i, n). \<lparr>name = n, operation = i\<rparr>) (enumerate 0 d)))\<rparr>"

text \<open>The same, with a connection service that is down.\<close>

definition unavailable_env :: "(string list, string, string, nat) env" where
  "unavailable_env =
     stub_env\<lparr>get_connection_details := (\<lambda>_. Inl (UpstreamError ''unavailable''))\<rparr>"

definition no_arguments :: config where
  "no_arguments =
     \<lparr>project = ''p'', location = ''us-central1'', integration = None, trigger = None,
      connection = None, entity_operations = None, actions = None,
      tool_name = Some [], tool_instructions = Some [], service_account_json = None\<rparr>"

text \<open>The integration of the class docstring.\<close>

definition integration_cfg :: config where
  "integration_cfg =
     no_arguments\<lparr>project := ''test-project'',
                  integration := Some ''test-integration'',
                  trigger := Some ''api_trigger/test_trigger''\<rparr>"

text \<open>The connection of the spec's example.\<close>

definition connection_cfg :: config where
  "connection_cfg = no_arguments\<lparr>connection := Some ''c'', actions := Some [''a1'']\<rparr>"

text \<open>An empty integration name next to a trigger.\<close>

definition empty_integration_cfg :: config where
  "empty_integration_cfg =
     no_arguments\<lparr>integration := Some [], trigger := Some ''api_trigger/test_trigger''\<rparr>"

text \<open>Both selector forms at once.\<close>

definition both_cfg :: config where
  "both_cfg = integration_cfg\<lparr>connection := Some ''c'', actions := Some [''a1'']\<rparr>"

text \<open>No selector, and a service-account payload that does not parse.\<close>

definition bad_json_cfg :: config where
  "bad_json_cfg = no_arguments\<lparr>service_account_json := Some ''{''\<rparr>"

definition integration_bad_json_cfg :: config where
  "integration_bad_json_cfg = integration_cfg\<lparr>service_account_json := Some ''{''\<rparr>"

definition integration_json_cfg :: config where
  "integration_json_cfg = integration_cfg\<lparr>service_account_json := Some ''{}''\<rparr>"

definition connection_json_cfg :: config where
  "connection_json_cfg = connection_cfg\<lparr>service_account_json := Some ''{}''\<rparr>"

text \<open>A payload that is given and empty.\<close>

definition integration_empty_json_cfg :: config where
  "integration_empty_json_cfg = integration_cfg\<lparr>service_account_json := Some []\<rparr>"


section \<open>Properties\<close>

subsection \<open>Logged computations\<close>

lemma bnd_ret: "bnd (ret a) f = f a"
  by (simp add: bnd_def ret_def)

lemma bnd_raise: "bnd (raise e) f = raise e"
  by (simp add: bnd_def raise_def)

lemma bnd_lift_Inr: "bnd (lift (Inr a)) f = f a"
  by (simp add: bnd_def lift_def)

lemma bnd_lift_Inl: "bnd (lift (Inl e)) f = raise e"
  by (simp add: bnd_def lift_def raise_def)

lemma bnd_call_Inr: "bnd (call ev (Inr a)) f = (ev # fst (f a), snd (f a))"
  by (simp add: bnd_def call_def)

lemma bnd_call_Inl: "bnd (call ev (Inl e)) f = ([ev], Inl e)"
  by (simp add: bnd_def call_def)

lemma fst_bnd_call:
  "fst (bnd (call ev r) f) = ev # (case r of Inl e \<Rightarrow> [] | Inr a \<Rightarrow> fst (f a))"
  by (cases r) (simp_all add: bnd_call_Inr bnd_call_Inl)

lemma snd_bnd_call:
  "snd (bnd (call ev r) f) = (case r of Inl e \<Rightarrow> Inl e | Inr a \<Rightarrow> snd (f a))"
  by (cases r) (simp_all add: bnd_call_Inr bnd_call_Inl)

subsection \<open>The dict\<close>

lemma key_in_keys: "(k, v) \<in> set d \<Longrightarrow> k \<in> fst ` set d"
  by force

lemma keys_dict_setitem:
  "map fst (dict_setitem k v d) = (if k \<in> fst ` set d then map fst d else map fst d @ [k])"
  by (induction d) (auto dest: key_in_keys)

lemma map_of_dict_setitem: "map_of (dict_setitem k v d) = (map_of d)(k \<mapsto> v)"
  by (induction d) (auto simp: fun_eq_iff)

lemma values_by_keys:
  "distinct (map fst d) \<Longrightarrow> map snd d = map (\<lambda>k. the (map_of d k)) (map fst d)"
proof (induction d)
  case Nil
  show ?case by simp
next
  case (Cons p d)
  obtain k v where p: "p = (k, v)" by (cases p)
  from Cons.prems have nk: "k \<notin> set (map fst d)" and dd: "distinct (map fst d)"
    by (simp_all add: p)
  have "map (\<lambda>x. the (map_of (p # d) x)) (map fst d) = map (\<lambda>x. the (map_of d x)) (map fst d)"
  proof (rule map_cong [OF refl])
    fix x
    assume "x \<in> set (map fst d)"
    with nk have "x \<noteq> k" by auto
    then show "the (map_of (p # d) x) = the (map_of d x)" by (simp add: p)
  qed
  with Cons.IH [OF dd] show ?case by (simp add: p)
qed

lemma set_first_occurrences: "set (first_occurrences xs) = set xs"
  by (induction xs rule: first_occurrences.induct) auto

lemma distinct_first_occurrences: "distinct (first_occurrences xs)"
  by (induction xs rule: first_occurrences.induct) (auto simp: set_first_occurrences)

lemma length_first_occurrences: "length (first_occurrences xs) = card (set xs)"
  using distinct_card [OF distinct_first_occurrences, of xs]
  by (simp add: set_first_occurrences)

lemma first_occurrences_snoc:
  "first_occurrences (xs @ [x]) =
     (if x \<in> set xs then first_occurrences xs else first_occurrences xs @ [x])"
  by (induction xs rule: first_occurrences.induct) auto

lemma first_occurrences_distinct: "distinct xs \<Longrightarrow> first_occurrences xs = xs"
proof (induction xs)
  case Nil
  show ?case by simp
next
  case (Cons x xs)
  from Cons.prems have "filter (\<lambda>y. y \<noteq> x) xs = xs"
    by (auto simp: filter_id_conv)
  with Cons show ?case by simp
qed

subsection \<open>Registering the parser's tools\<close>

lemma generated_tools_register:
  "generated_tools (register_tools tools self) =
     fold (\<lambda>t. dict_setitem (name t) t) tools (generated_tools self)"
  unfolding register_tools_def by (induction tools arbitrary: self) simp_all

lemma keys_fold_setitem:
  "map fst (fold (\<lambda>t. dict_setitem (name t) t) tools []) = first_occurrences (map name tools)"
proof (induction tools rule: rev_induct)
  case Nil
  show ?case by simp
next
  case (snoc t ts)
  let ?D = "fold (\<lambda>t. dict_setitem (name t) t) ts []"
  have "set (map fst ?D) = set (map name ts)"
    by (simp only: snoc.IH set_first_occurrences)
  then have "fst ` set ?D = name ` set ts" by simp
  then show ?case
    by (simp add: keys_dict_setitem first_occurrences_snoc snoc.IH)
qed

lemma lookup_fold_setitem:
  "map_of (fold (\<lambda>t. dict_setitem (name t) t) tools []) n =
     (if n \<in> name ` set tools then Some (last (filter (\<lambda>t. name t = n) tools)) else None)"
  by (induction tools rule: rev_induct) (auto simp: map_of_dict_setitem)

lemma values_fold_setitem:
  "dict_values (fold (\<lambda>t. dict_setitem (name t) t) tools []) = last_write_wins tools"
proof -
  let ?D = "fold (\<lambda>t. dict_setitem (name t) t) tools []"
  have k: "map fst ?D = first_occurrences (map name tools)"
    by (rule keys_fold_setitem)
  have "distinct (map fst ?D)"
    by (simp only: k distinct_first_occurrences)
  then have "map snd ?D = map (\<lambda>k. the (map_of ?D k)) (map fst ?D)"
    by (rule values_by_keys)
  also have "\<dots> = map (\<lambda>k. the (map_of ?D k)) (first_occurrences (map name tools))"
    by (simp only: k)
  also have "\<dots> = last_write_wins tools"
    unfolding last_write_wins_def
    by (rule map_cong) (simp_all add: lookup_fold_setitem set_first_occurrences)
  finally show ?thesis by (simp add: dict_values_def)
qed

lemma filter_name_singleton:
  "distinct (map name ts) \<Longrightarrow> t \<in> set ts \<Longrightarrow> filter (\<lambda>u. name u = name t) ts = [t]"
  by (induction ts) (auto simp: filter_empty_conv image_iff)

lemma last_write_wins_distinct:
  assumes "distinct (map name tools)"
  shows "last_write_wins tools = tools"
proof -
  have "map (\<lambda>t. last (filter (\<lambda>u. name u = name t) tools)) tools = tools"
    by (rule map_idI) (simp add: filter_name_singleton [OF assms])
  then show ?thesis
    by (simp add: last_write_wins_def first_occurrences_distinct [OF assms] comp_def)
qed

lemma get_tools_register_new:
  "snd (get_tools (register_tools tools (new_self cfg))) = last_write_wins tools"
  by (simp add: get_tools_def generated_tools_register new_self_def values_fold_setitem)

subsection \<open>The two halves of the constructor\<close>

lemma service_account_json_new_self [simp]:
  "service_account_json (new_self cfg :: 'b toolset) = service_account_json cfg"
  by (simp add: new_self_def)

lemma parse_default_credential:
  "\<not> truthy (service_account_json self) \<Longrightarrow>
   parse_spec_to_tools env self d =
     bnd (call (OpenAPIToolset_get_tools d
                  \<lparr>auth_type = SERVICE_ACCOUNT,
                   service_account =
                     \<lparr>service_account_credential = None, scopes = [cloud_platform],
                      use_default_credential = Some True\<rparr>\<rparr>
                  (HTTPBearer (Some ''JWT'')))
            (openapi_toolset_get_tools env d
               \<lparr>auth_type = SERVICE_ACCOUNT,
                service_account =
                  \<lparr>service_account_credential = None, scopes = [cloud_platform],
                   use_default_credential = Some True\<rparr>\<rparr>
               (HTTPBearer (Some ''JWT''))))
       (\<lambda>tools. ret (register_tools tools self))"
  by (simp add: parse_spec_to_tools_def bnd_ret)

lemma parse_service_account:
  "truthy (service_account_json self) \<Longrightarrow>
   model_validate_json env (the (service_account_json self)) = Inr k \<Longrightarrow>
   parse_spec_to_tools env self d =
     (Model_validate_json (the (service_account_json self))
      # fst (bnd (call (OpenAPIToolset_get_tools d
                  \<lparr>auth_type = SERVICE_ACCOUNT,
                   service_account =
                     \<lparr>service_account_credential = Some k, scopes = [cloud_platform],
                      use_default_credential = Some False\<rparr>\<rparr>
                  (HelperScheme (helper_scheme env
                     \<lparr>service_account_credential = Some k, scopes = [cloud_platform],
                      use_default_credential = Some False\<rparr>)))
            (openapi_toolset_get_tools env d
               \<lparr>auth_type = SERVICE_ACCOUNT,
                service_account =
                  \<lparr>service_account_credential = Some k, scopes = [cloud_platform],
                   use_default_credential = Some False\<rparr>\<rparr>
               (HelperScheme (helper_scheme env
                  \<lparr>service_account_credential = Some k, scopes = [cloud_platform],
                   use_default_credential = Some False\<rparr>))))
       (\<lambda>tools. ret (register_tools tools self))),
      snd (bnd (call (OpenAPIToolset_get_tools d
                  \<lparr>auth_type = SERVICE_ACCOUNT,
                   service_account =
                     \<lparr>service_account_credential = Some k, scopes = [cloud_platform],
                      use_default_credential = Some False\<rparr>\<rparr>
                  (HelperScheme (helper_scheme env
                     \<lparr>service_account_credential = Some k, scopes = [cloud_platform],
                      use_default_credential = Some False\<rparr>)))
            (openapi_toolset_get_tools env d
               \<lparr>auth_type = SERVICE_ACCOUNT,
                service_account =
                  \<lparr>service_account_credential = Some k, scopes = [cloud_platform],
                   use_default_credential = Some False\<rparr>\<rparr>
               (HelperScheme (helper_scheme env
                  \<lparr>service_account_credential = Some k, scopes = [cloud_platform],
                   use_default_credential = Some False\<rparr>))))
       (\<lambda>tools. ret (register_tools tools self))))"
  by (simp add: parse_spec_to_tools_def bnd_def call_def ret_def
        service_account_scheme_credential_def split: sum.splits)

lemma parse_malformed:
  "truthy (service_account_json self) \<Longrightarrow>
   model_validate_json env (the (service_account_json self)) = Inl e \<Longrightarrow>
   parse_spec_to_tools env self d =
     ([Model_validate_json (the (service_account_json self))], Inl e)"
  by (simp add: parse_spec_to_tools_def bnd_def call_def ret_def)

lemma parse_no_spec_provider_call:
  "filter is_spec_provider_call (fst (parse_spec_to_tools env self d)) = []"
proof (cases "truthy (service_account_json self)")
  case False
  then show ?thesis
    by (simp add: parse_default_credential fst_bnd_call ret_def split: sum.splits)
next
  case True
  show ?thesis
  proof (cases "model_validate_json env (the (service_account_json self))")
    case (Inl e)
    with True show ?thesis by (simp add: parse_malformed)
  next
    case (Inr k)
    with True show ?thesis
      by (simp add: parse_service_account fst_bnd_call ret_def split: sum.splits)
  qed
qed

lemma parse_success:
  assumes "snd (parse_spec_to_tools env self d) = Inr self'"
  shows "\<exists>a s ts. OpenAPIToolset_get_tools d a s \<in> set (fst (parse_spec_to_tools env self d))
           \<and> openapi_toolset_get_tools env d a s = Inr ts
           \<and> self' = register_tools ts self"
proof (cases "truthy (service_account_json self)")
  case False
  with assms show ?thesis
    by (auto simp: parse_default_credential fst_bnd_call snd_bnd_call ret_def
          split: sum.splits)
next
  case True
  show ?thesis
  proof (cases "model_validate_json env (the (service_account_json self))")
    case (Inl e)
    with True assms show ?thesis by (simp add: parse_malformed)
  next
    case (Inr k)
    with True assms show ?thesis
      by (auto simp: parse_service_account fst_bnd_call snd_bnd_call ret_def
            split: sum.splits)
  qed
qed

lemma init_integration:
  "truthy (integration cfg) \<Longrightarrow> truthy (trigger cfg) \<Longrightarrow>
   init env cfg =
     bnd (call (Get_openapi_spec_for_integration
                  (IntegrationClient (project cfg) (location cfg) (integration cfg)
                     (trigger cfg) (connection cfg) (entity_operations cfg) (actions cfg)
                     (service_account_json cfg)))
            (get_openapi_spec_for_integration env
               (IntegrationClient (project cfg) (location cfg) (integration cfg)
                  (trigger cfg) (connection cfg) (entity_operations cfg) (actions cfg)
                  (service_account_json cfg))))
       (parse_spec_to_tools env (new_self cfg))"
  by (simp add: init_def Let_def)

lemma init_connection:
  "\<not> (truthy (integration cfg) \<and> truthy (trigger cfg)) \<Longrightarrow>
   truthy (connection cfg) \<Longrightarrow>
   truthy (entity_operations cfg) \<or> truthy (actions cfg) \<Longrightarrow>
   init env cfg =
     bnd (call (Get_connection_details
                  (ConnectionsClient (project cfg) (location cfg) (connection cfg)
                     (service_account_json cfg)))
            (get_connection_details env
               (ConnectionsClient (project cfg) (location cfg) (connection cfg)
                  (service_account_json cfg))))
       (\<lambda>connection_details.
          bnd (lift (str_iadd (tool_instructions cfg)
                       (connection_directive cfg connection_details)))
            (\<lambda>tool_instructions'.
               bnd (call (Get_openapi_spec_for_connection
                            (IntegrationClient (project cfg) (location cfg)
                               (integration cfg) (trigger cfg) (connection cfg)
                               (entity_operations cfg) (actions cfg)
                               (service_account_json cfg))
                            (tool_name cfg) tool_instructions')
                      (get_openapi_spec_for_connection env
                         (IntegrationClient (project cfg) (location cfg)
                            (integration cfg) (trigger cfg) (connection cfg)
                            (entity_operations cfg) (actions cfg)
                            (service_account_json cfg))
                         (tool_name cfg) tool_instructions'))
                 (parse_spec_to_tools env (new_self cfg))))"
  by (auto simp: init_def Let_def)

lemma init_no_selector:
  "\<not> (truthy (integration cfg) \<and> truthy (trigger cfg)) \<Longrightarrow>
   \<not> (truthy (connection cfg) \<and> (truthy (entity_operations cfg) \<or> truthy (actions cfg))) \<Longrightarrow>
   init env cfg = ([], Inl config_error)"
  by (auto simp: init_def Let_def raise_def)


lemma parse_trace_not_provider:
  "ev \<in> set (fst (parse_spec_to_tools env self d)) \<Longrightarrow> \<not> is_spec_provider_call ev"
  using parse_no_spec_provider_call [of env self d] by (simp add: filter_empty_conv)

lemma bnd_success:
  "snd (bnd m f) = Inr b \<Longrightarrow>
   \<exists>a. snd m = Inr a \<and> snd (f a) = Inr b \<and> fst (bnd m f) = fst m @ fst (f a)"
  by (auto simp: bnd_def split: sum.splits)

lemma init_reaches_parse:
  assumes "snd (init env cfg) = Inr self"
  shows "\<exists>d. snd (parse_spec_to_tools env (new_self cfg) d) = Inr self
           \<and> set (fst (parse_spec_to_tools env (new_self cfg) d)) \<subseteq> set (fst (init env cfg))"
proof (cases "truthy (integration cfg) \<and> truthy (trigger cfg)")
  case True
  then have e: "init env cfg =
      bnd (call (Get_openapi_spec_for_integration
                  (IntegrationClient (project cfg) (location cfg) (integration cfg)
                     (trigger cfg) (connection cfg) (entity_operations cfg) (actions cfg)
                     (service_account_json cfg)))
            (get_openapi_spec_for_integration env
               (IntegrationClient (project cfg) (location cfg) (integration cfg)
                  (trigger cfg) (connection cfg) (entity_operations cfg) (actions cfg)
                  (service_account_json cfg))))
       (parse_spec_to_tools env (new_self cfg))"
    by (simp add: init_integration)
  from assms show ?thesis
    unfolding e by (auto dest!: bnd_success)
next
  case no_integration: False
  show ?thesis
  proof (cases "truthy (connection cfg)
                \<and> (truthy (entity_operations cfg) \<or> truthy (actions cfg))")
    case True
    from assms show ?thesis
      unfolding init_connection [OF no_integration conjunct1 [OF True] conjunct2 [OF True]]
      by (auto dest!: bnd_success)
  next
    case False
    with no_integration assms show ?thesis
      by (simp add: init_no_selector)
  qed
qed

lemma init_success:
  assumes "snd (init env cfg) = Inr self"
  shows "\<exists>d a s ts. OpenAPIToolset_get_tools d a s \<in> set (fst (init env cfg))
           \<and> openapi_toolset_get_tools env d a s = Inr ts
           \<and> self = register_tools ts (new_self cfg)"
proof -
  from init_reaches_parse [OF assms] obtain d where
    p: "snd (parse_spec_to_tools env (new_self cfg) d) = Inr self" and
    s: "set (fst (parse_spec_to_tools env (new_self cfg) d)) \<subseteq> set (fst (init env cfg))"
    by blast
  from parse_success [OF p] obtain a s' ts where
    "OpenAPIToolset_get_tools d a s' \<in> set (fst (parse_spec_to_tools env (new_self cfg) d))"
    "openapi_toolset_get_tools env d a s' = Inr ts" "self = register_tools ts (new_self cfg)"
    by blast
  with s show ?thesis by blast
qed

lemma name_last_filter:
  assumes "n \<in> name ` set tools"
  shows "name (last (filter (\<lambda>t. name t = n) tools)) = n"
proof -
  from assms have "filter (\<lambda>t. name t = n) tools \<noteq> []"
    by (auto simp: filter_empty_conv)
  then have "last (filter (\<lambda>t. name t = n) tools) \<in> set (filter (\<lambda>t. name t = n) tools)"
    by (rule last_in_set)
  then show ?thesis by simp
qed

lemma names_last_write_wins:
  "map name (last_write_wins tools) = first_occurrences (map name tools)"
proof -
  have "map name (last_write_wins tools) =
        map (\<lambda>n. name (last (filter (\<lambda>t. name t = n) tools))) (first_occurrences (map name tools))"
    by (simp add: last_write_wins_def comp_def)
  also have "\<dots> = first_occurrences (map name tools)"
    by (rule map_idI) (simp add: set_first_occurrences name_last_filter)
  finally show ?thesis .
qed

lemma parse_frame:
  assumes "service_account_json self = service_account_json self'"
      and "generated_tools self = generated_tools self'"
  shows "fst (parse_spec_to_tools env self d) = fst (parse_spec_to_tools env self' d)
         \<and> map_sum id (\<lambda>s. snd (get_tools s)) (snd (parse_spec_to_tools env self d)) =
           map_sum id (\<lambda>s. snd (get_tools s)) (snd (parse_spec_to_tools env self' d))"
  using assms
  by (auto simp: parse_spec_to_tools_def bnd_def call_def ret_def get_tools_def
        generated_tools_register service_account_scheme_credential_def
      split: sum.splits)

lemma sublist_in: "ys = ps @ xs @ ss \<Longrightarrow> sublist xs ys"
  by (auto simp: sublist_def)

lemma directive_serviceName:
  "sublist (serviceName details) (ti @ connection_directive cfg details)"
  by (rule sublist_in
        [where ps = "ti @ ''ALWAYS use serviceName = ''"
           and ss = "'', host = '' @ host details @ '' and the connection name = ''
                     @ (''projects/'' @ project cfg @ ''/locations/'' @ location cfg
                        @ ''/connections/'' @ format_str (connection cfg) @ '' when''
                        @ '' using this tool'')
                     @ ''. DONOT ask the user for these values as you already have those.''"])
     (simp add: connection_directive_def)

lemma directive_host:
  "sublist (host details) (ti @ connection_directive cfg details)"
  by (rule sublist_in
        [where ps = "ti @ ''ALWAYS use serviceName = '' @ serviceName details @ '', host = ''"
           and ss = "'' and the connection name = ''
                     @ (''projects/'' @ project cfg @ ''/locations/'' @ location cfg
                        @ ''/connections/'' @ format_str (connection cfg) @ '' when''
                        @ '' using this tool'')
                     @ ''. DONOT ask the user for these values as you already have those.''"])
     (simp add: connection_directive_def)

lemma directive_resource_path:
  "connection cfg = Some c \<Longrightarrow>
   sublist (''projects/'' @ project cfg @ ''/locations/'' @ location cfg
            @ ''/connections/'' @ c)
     (ti @ connection_directive cfg details)"
  by (rule sublist_in
        [where ps = "ti @ ''ALWAYS use serviceName = '' @ serviceName details @ '', host = ''
                     @ host details @ '' and the connection name = ''"
           and ss = "'' when'' @ '' using this tool''
                     @ ''. DONOT ask the user for these values as you already have those.''"])
     (simp add: connection_directive_def format_str_def)


subsection \<open>What the parser is called with\<close>

lemma parse_trace_default:
  "\<not> truthy (service_account_json self) \<Longrightarrow>
   fst (parse_spec_to_tools env self d) =
     [OpenAPIToolset_get_tools d
           \<lparr>auth_type = SERVICE_ACCOUNT, service_account = \<lparr>service_account_credential = None, scopes = [''https://www.googleapis.com/auth/cloud-platform''], use_default_credential = Some True\<rparr>\<rparr>
           (HTTPBearer (Some ''JWT''))]"
  by (simp add: parse_default_credential fst_bnd_call ret_def cloud_platform_def
        split: sum.splits)

lemma parse_trace_service_account:
  "service_account_json self = Some j \<Longrightarrow> j \<noteq> [] \<Longrightarrow>
   model_validate_json env j = Inr k \<Longrightarrow>
   fst (parse_spec_to_tools env self d) =
     [Model_validate_json j,
      OpenAPIToolset_get_tools d
           \<lparr>auth_type = SERVICE_ACCOUNT, service_account = \<lparr>service_account_credential = Some k, scopes = [''https://www.googleapis.com/auth/cloud-platform''], use_default_credential = Some False\<rparr>\<rparr>
           (HelperScheme (helper_scheme env \<lparr>service_account_credential = Some k, scopes = [''https://www.googleapis.com/auth/cloud-platform''], use_default_credential = Some False\<rparr>))]"
  by (simp add: parse_service_account [where k = k] truthy_def fst_bnd_call ret_def
        cloud_platform_def split: sum.splits)

lemma init_trace_integration:
  "truthy (integration cfg) \<Longrightarrow> truthy (trigger cfg) \<Longrightarrow>
   get_openapi_spec_for_integration env
     (IntegrationClient (project cfg) (location cfg) (integration cfg) (trigger cfg) (connection cfg) (entity_operations cfg) (actions cfg) (service_account_json cfg)) = Inr d \<Longrightarrow>
   fst (init env cfg) =
     Get_openapi_spec_for_integration
       (IntegrationClient (project cfg) (location cfg) (integration cfg) (trigger cfg) (connection cfg) (entity_operations cfg) (actions cfg) (service_account_json cfg))
     # fst (parse_spec_to_tools env (new_self cfg) d)"
  by (simp add: init_integration bnd_call_Inr)

lemma init_trace_connection:
  "\<not> (truthy (integration cfg) \<and> truthy (trigger cfg)) \<Longrightarrow>
   truthy (connection cfg) \<Longrightarrow>
   truthy (entity_operations cfg) \<or> truthy (actions cfg) \<Longrightarrow>
   get_connection_details env
     (ConnectionsClient (project cfg) (location cfg) (connection cfg) (service_account_json cfg)) = Inr details \<Longrightarrow>
   tool_instructions cfg = Some ti \<Longrightarrow>
   get_openapi_spec_for_connection env
     (IntegrationClient (project cfg) (location cfg) (integration cfg) (trigger cfg) (connection cfg) (entity_operations cfg) (actions cfg) (service_account_json cfg))
     (tool_name cfg) (ti @ connection_directive cfg details) = Inr d \<Longrightarrow>
   fst (init env cfg) =
     Get_connection_details
       (ConnectionsClient (project cfg) (location cfg) (connection cfg) (service_account_json cfg))
     # Get_openapi_spec_for_connection
         (IntegrationClient (project cfg) (location cfg) (integration cfg) (trigger cfg) (connection cfg) (entity_operations cfg) (actions cfg) (service_account_json cfg))
         (tool_name cfg) (ti @ connection_directive cfg details)
     # fst (parse_spec_to_tools env (new_self cfg) d)"
  by (simp add: init_connection bnd_call_Inr bnd_lift_Inr str_iadd_def)

lemma init_parser_event:
  assumes "OpenAPIToolset_get_tools d a s \<in> set (fst (init env cfg))"
  shows "\<exists>d'. OpenAPIToolset_get_tools d a s
                \<in> set (fst (parse_spec_to_tools env (new_self cfg) d'))"
proof (cases "truthy (integration cfg) \<and> truthy (trigger cfg)")
  case True
  with assms show ?thesis
    by (auto simp: init_integration fst_bnd_call split: sum.splits)
next
  case no_integration: False
  show ?thesis
  proof (cases "truthy (connection cfg)
                \<and> (truthy (entity_operations cfg) \<or> truthy (actions cfg))")
    case True
    from assms show ?thesis
      unfolding init_connection [OF no_integration conjunct1 [OF True] conjunct2 [OF True]]
      by (auto simp: bnd_def call_def lift_def split: sum.splits)
  next
    case False
    with no_integration assms show ?thesis
      by (simp add: init_no_selector)
  qed
qed

lemma parser_calls_map:
  assumes "\<forall>d a s. OpenAPIToolset_get_tools d a s \<in> set tr \<longrightarrow> a = a0 \<and> s = s0"
  shows "\<exists>ds. filter is_parser_call tr = map (\<lambda>d. OpenAPIToolset_get_tools d a0 s0) ds"
  using assms
proof (induction tr)
  case Nil
  show ?case by simp
next
  case (Cons ev tr)
  from Cons.prems have
    "\<forall>d a s. OpenAPIToolset_get_tools d a s \<in> set tr \<longrightarrow> a = a0 \<and> s = s0"
    by auto
  from Cons.IH [OF this] obtain ds where
    ds: "filter is_parser_call tr = map (\<lambda>d. OpenAPIToolset_get_tools d a0 s0) ds"
    by blast
  show ?case
  proof (cases "is_parser_call ev")
    case False
    with ds have
      "filter is_parser_call (ev # tr) = map (\<lambda>d. OpenAPIToolset_get_tools d a0 s0) ds"
      by simp
    then show ?thesis by (rule exI)
  next
    case True
    then obtain d a s where ev: "ev = OpenAPIToolset_get_tools d a s"
      by (cases ev) simp_all
    from Cons.prems have
      "OpenAPIToolset_get_tools d a s \<in> set (ev # tr) \<longrightarrow> a = a0 \<and> s = s0"
      by blast
    with ev have "a = a0 \<and> s = s0" by simp
    with ev ds have
      "filter is_parser_call (ev # tr) = map (\<lambda>d. OpenAPIToolset_get_tools d a0 s0) (d # ds)"
      by simp
    then show ?thesis by (rule exI)
  qed
qed

lemma init_auth_default:
  assumes "\<not> truthy (service_account_json cfg)"
      and "OpenAPIToolset_get_tools d a s \<in> set (fst (init env cfg))"
  shows "a = \<lparr>auth_type = SERVICE_ACCOUNT, service_account = \<lparr>service_account_credential = None, scopes = [''https://www.googleapis.com/auth/cloud-platform''], use_default_credential = Some True\<rparr>\<rparr>
         \<and> s = HTTPBearer (Some ''JWT'')"
proof -
  from init_parser_event [OF assms(2)] obtain d' where
    "OpenAPIToolset_get_tools d a s \<in> set (fst (parse_spec_to_tools env (new_self cfg) d'))"
    by blast
  with assms(1) show ?thesis
    by (simp add: parse_trace_default)
qed

lemma init_auth_service_account:
  assumes "service_account_json cfg = Some j" and "j \<noteq> []"
      and "model_validate_json env j = Inr k"
      and "OpenAPIToolset_get_tools d a s \<in> set (fst (init env cfg))"
  shows "a = \<lparr>auth_type = SERVICE_ACCOUNT, service_account = \<lparr>service_account_credential = Some k, scopes = [''https://www.googleapis.com/auth/cloud-platform''], use_default_credential = Some False\<rparr>\<rparr>
         \<and> s = HelperScheme (helper_scheme env \<lparr>service_account_credential = Some k, scopes = [''https://www.googleapis.com/auth/cloud-platform''], use_default_credential = Some False\<rparr>)"
proof -
  from init_parser_event [OF assms(4)] obtain d' where
    "OpenAPIToolset_get_tools d a s \<in> set (fst (parse_spec_to_tools env (new_self cfg) d'))"
    by blast
  with assms(1,2,3) show ?thesis
    by (simp add: parse_trace_service_account [where j = j and k = k])
qed

section \<open>The claims\<close>

subsection \<open>C1: selection of the mode\<close>

text \<open>
  C1 as stated takes the mode from the presence of the arguments. The code tests their
  truth value, so an argument that is present but empty does not count: with an empty
  integration name and a trigger, both are present and construction raises the
  configuration error.
\<close>

theorem empty_integration_counterexample:
  "integration empty_integration_cfg \<noteq> None \<and> trigger empty_integration_cfg \<noteq> None
   \<and> init stub_env empty_integration_cfg = ([], Inl config_error)"
  by (simp add: empty_integration_cfg_def no_arguments_def init_def Let_def truthy_def
        raise_def)

text \<open>
  C1, amended: with "present" read as "present and not empty", construction follows the
  three steps in order. If integration and trigger are both so, the first call is
  \<^verbatim>\<open>get_openapi_spec_for_integration\<close>; otherwise, if connection is so and
  entity_operations or actions is not empty, the first call is
  \<^verbatim>\<open>get_connection_details\<close>; otherwise construction raises the ValueError and calls
  nothing.
\<close>

theorem init_selects_mode:
  "(truthy (integration cfg) \<and> truthy (trigger cfg) \<longrightarrow>
      take 1 (fst (init env cfg)) =
        [Get_openapi_spec_for_integration
           (IntegrationClient (project cfg) (location cfg) (integration cfg) (trigger cfg)
              (connection cfg) (entity_operations cfg) (actions cfg)
              (service_account_json cfg))])
   \<and> (\<not> (truthy (integration cfg) \<and> truthy (trigger cfg))
        \<and> truthy (connection cfg)
        \<and> (truthy (entity_operations cfg) \<or> truthy (actions cfg)) \<longrightarrow>
      take 1 (fst (init env cfg)) =
        [Get_connection_details
           (ConnectionsClient (project cfg) (location cfg) (connection cfg)
              (service_account_json cfg))])
   \<and> (\<not> (truthy (integration cfg) \<and> truthy (trigger cfg))
        \<and> \<not> (truthy (connection cfg)
              \<and> (truthy (entity_operations cfg) \<or> truthy (actions cfg))) \<longrightarrow>
      init env cfg =
        ([], Inl (ValueError (''Either (integration and trigger) or (connection and''
                              @ '' (entity_operations or actions)) should be provided.''))))"
  by (simp add: init_integration init_connection init_no_selector fst_bnd_call
        config_error_def)

theorem init_selects_mode_witness:
  "(truthy (integration integration_cfg) \<and> truthy (trigger integration_cfg))
   \<and> take 1 (fst (init stub_env integration_cfg)) =
        [Get_openapi_spec_for_integration
           (IntegrationClient (project integration_cfg) (location integration_cfg)
              (integration integration_cfg) (trigger integration_cfg)
              (connection integration_cfg) (entity_operations integration_cfg)
              (actions integration_cfg) (service_account_json integration_cfg))]
   \<and> (\<not> (truthy (integration connection_cfg) \<and> truthy (trigger connection_cfg))
        \<and> truthy (connection connection_cfg)
        \<and> (truthy (entity_operations connection_cfg) \<or> truthy (actions connection_cfg)))
   \<and> take 1 (fst (init stub_env connection_cfg)) =
        [Get_connection_details
           (ConnectionsClient (project connection_cfg) (location connection_cfg)
              (connection connection_cfg) (service_account_json connection_cfg))]
   \<and> (\<not> (truthy (integration no_arguments) \<and> truthy (trigger no_arguments))
        \<and> \<not> (truthy (connection no_arguments)
              \<and> (truthy (entity_operations no_arguments) \<or> truthy (actions no_arguments))))
   \<and> init stub_env no_arguments =
        ([], Inl (ValueError (''Either (integration and trigger) or (connection and''
                              @ '' (entity_operations or actions)) should be provided.'')))"
proof -
  have a: "truthy (integration integration_cfg) \<and> truthy (trigger integration_cfg)"
    by (simp add: integration_cfg_def no_arguments_def truthy_def)
  have b: "\<not> (truthy (integration connection_cfg) \<and> truthy (trigger connection_cfg))
           \<and> truthy (connection connection_cfg)
           \<and> (truthy (entity_operations connection_cfg) \<or> truthy (actions connection_cfg))"
    by (simp add: connection_cfg_def no_arguments_def truthy_def)
  have c: "\<not> (truthy (integration no_arguments) \<and> truthy (trigger no_arguments))
           \<and> \<not> (truthy (connection no_arguments)
                 \<and> (truthy (entity_operations no_arguments) \<or> truthy (actions no_arguments)))"
    by (simp add: no_arguments_def truthy_def)
  note A = init_selects_mode [where env = stub_env and cfg = integration_cfg,
      THEN conjunct1, rule_format, OF a]
  note B = init_selects_mode [where env = stub_env and cfg = connection_cfg,
      THEN conjunct2, THEN conjunct1, rule_format, OF b]
  note C = init_selects_mode [where env = stub_env and cfg = no_arguments,
      THEN conjunct2, THEN conjunct2, rule_format, OF c]
  from a b c A B C show ?thesis by blast
qed

subsection \<open>C2: the registry keeps the parser's order, the last tool of a name wins\<close>

text \<open>
  C2: whatever tools the parser returns, \<^verbatim>\<open>get_tools\<close> gives the names in the order of
  their first appearance and, under each name, the last tool that carries it; the
  length is the number of distinct names; without duplicates the result is the
  parser's list itself. A successful construction is one whose parser call returned
  such a list, registered into the empty dict.
\<close>

theorem get_tools_last_write_wins:
  "snd (get_tools (register_tools tools (new_self cfg))) = last_write_wins tools
   \<and> map name (snd (get_tools (register_tools tools (new_self cfg)))) =
       first_occurrences (map name tools)
   \<and> length (snd (get_tools (register_tools tools (new_self cfg)))) =
       card (name ` set tools)
   \<and> (distinct (map name tools) \<longrightarrow>
        snd (get_tools (register_tools tools (new_self cfg))) = tools)
   \<and> (snd (init env cfg) = Inr self \<longrightarrow>
        (\<exists>d a s ts. OpenAPIToolset_get_tools d a s \<in> set (fst (init env cfg))
           \<and> openapi_toolset_get_tools env d a s = Inr ts
           \<and> self = register_tools ts (new_self cfg)))"
proof -
  have g: "snd (get_tools (register_tools tools (new_self cfg))) = last_write_wins tools"
    by (rule get_tools_register_new)
  have n: "map name (last_write_wins tools) = first_occurrences (map name tools)"
    by (rule names_last_write_wins)
  have l: "length (last_write_wins tools) = card (name ` set tools)"
    by (simp add: last_write_wins_def length_first_occurrences)
  have d: "distinct (map name tools) \<longrightarrow> last_write_wins tools = tools"
    by (simp add: last_write_wins_distinct)
  have i: "snd (init env cfg) = Inr self \<longrightarrow>
        (\<exists>d a s ts. OpenAPIToolset_get_tools d a s \<in> set (fst (init env cfg))
           \<and> openapi_toolset_get_tools env d a s = Inr ts
           \<and> self = register_tools ts (new_self cfg))"
    using init_success [of env cfg self] by blast
  from n l d i show ?thesis
    unfolding g by blast
qed

theorem get_tools_last_write_wins_witness:
  "distinct (map name [\<lparr>name = ''op1'', operation = 0::nat\<rparr>, \<lparr>name = ''op2'', operation = 1\<rparr>])
   \<and> snd (get_tools (register_tools
             [\<lparr>name = ''op1'', operation = 0::nat\<rparr>, \<lparr>name = ''op2'', operation = 1\<rparr>]
             (new_self connection_cfg))) =
       [\<lparr>name = ''op1'', operation = 0\<rparr>, \<lparr>name = ''op2'', operation = 1\<rparr>]
   \<and> snd (init stub_env connection_cfg) =
       Inr (register_tools
              [\<lparr>name = ''op1'', operation = 0::nat\<rparr>, \<lparr>name = ''op2'', operation = 1\<rparr>]
              (new_self connection_cfg))
   \<and> (\<exists>d a s ts. OpenAPIToolset_get_tools d a s \<in> set (fst (init stub_env connection_cfg))
         \<and> openapi_toolset_get_tools stub_env d a s = Inr ts
         \<and> register_tools
             [\<lparr>name = ''op1'', operation = 0::nat\<rparr>, \<lparr>name = ''op2'', operation = 1\<rparr>]
             (new_self connection_cfg) = register_tools ts (new_self connection_cfg))"
proof -
  let ?tools = "[\<lparr>name = ''op1'', operation = 0::nat\<rparr>, \<lparr>name = ''op2'', operation = 1\<rparr>]"
  have d: "distinct (map name ?tools)" by simp
  have i: "snd (init stub_env connection_cfg) =
           Inr (register_tools ?tools (new_self connection_cfg))"
    by (simp add: connection_cfg_def no_arguments_def init_def Let_def truthy_def bnd_def
          call_def ret_def lift_def str_iadd_def parse_spec_to_tools_def stub_env_def
          IntegrationClient_def ConnectionsClient_def)
  note t = get_tools_last_write_wins [where tools = ?tools and cfg = connection_cfg
      and env = stub_env and self = "register_tools ?tools (new_self connection_cfg)"]
  from t d i show ?thesis by blast
qed

text \<open>The same on a list with a repeated name: the later tool takes the earlier one's place.\<close>

lemma get_tools_duplicate_example:
  "snd (get_tools (register_tools
         [\<lparr>name = ''a'', operation = 0::nat\<rparr>, \<lparr>name = ''b'', operation = 1\<rparr>,
          \<lparr>name = ''a'', operation = 2\<rparr>]
         (new_self no_arguments))) =
     [\<lparr>name = ''a'', operation = 2\<rparr>, \<lparr>name = ''b'', operation = 1\<rparr>]"
  by (simp add: get_tools_def register_tools_def new_self_def dict_values_def)

subsection \<open>C3: the calls of connection mode\<close>

text \<open>
  C3 as stated promises the two calls for every valid connection-mode configuration.
  The second call is made only after the first has returned: when
  \<^verbatim>\<open>get_connection_details\<close> raises, the exception leaves the constructor and
  \<^verbatim>\<open>get_openapi_spec_for_connection\<close> is never called.
\<close>

theorem connection_unavailable_counterexample:
  "\<not> (truthy (integration connection_cfg) \<and> truthy (trigger connection_cfg))
   \<and> truthy (connection connection_cfg) \<and> truthy (actions connection_cfg)
   \<and> init unavailable_env connection_cfg =
       ([Get_connection_details (ConnectionsClient ''p'' ''us-central1'' (Some ''c'') None)],
        Inl (UpstreamError ''unavailable''))"
  by (simp add: connection_cfg_def no_arguments_def init_def Let_def truthy_def bnd_def
        call_def unavailable_env_def stub_env_def)

text \<open>
  C3, amended: for every valid connection-mode configuration whose
  \<^verbatim>\<open>tool_instructions\<close> is a string, when \<^verbatim>\<open>get_connection_details\<close> returns the
  connection's details, the Spec Provider is called exactly twice, first
  \<^verbatim>\<open>get_connection_details\<close> and then \<^verbatim>\<open>get_openapi_spec_for_connection\<close>; the
  instructions passed to the latter are the caller's text followed by one directive, and
  they contain the retrieved serviceName, the retrieved host and the resource path
  \<^verbatim>\<open>projects/{project}/locations/{location}/connections/{connection}\<close>.
\<close>

theorem connection_mode_calls:
  assumes "\<not> (truthy (integration cfg) \<and> truthy (trigger cfg))"
      and "connection cfg = Some c" and "c \<noteq> []"
      and "truthy (entity_operations cfg) \<or> truthy (actions cfg)"
      and "tool_instructions cfg = Some ti"
      and "get_connection_details env
             (ConnectionsClient (project cfg) (location cfg) (connection cfg)
                (service_account_json cfg)) = Inr details"
  shows "filter is_spec_provider_call (fst (init env cfg)) =
           [Get_connection_details
              (ConnectionsClient (project cfg) (location cfg) (connection cfg)
                 (service_account_json cfg)),
            Get_openapi_spec_for_connection
              (IntegrationClient (project cfg) (location cfg) (integration cfg) (trigger cfg)
                 (connection cfg) (entity_operations cfg) (actions cfg)
                 (service_account_json cfg))
              (tool_name cfg) (ti @ connection_directive cfg details)]
         \<and> sublist (serviceName details) (ti @ connection_directive cfg details)
         \<and> sublist (host details) (ti @ connection_directive cfg details)
         \<and> sublist (''projects/'' @ project cfg @ ''/locations/'' @ location cfg
                     @ ''/connections/'' @ c)
              (ti @ connection_directive cfg details)"
proof -
  have tc: "truthy (connection cfg)"
    using assms(2,3) by (simp add: truthy_def)
  have "filter is_spec_provider_call (fst (init env cfg)) =
           [Get_connection_details
              (ConnectionsClient (project cfg) (location cfg) (connection cfg)
                 (service_account_json cfg)),
            Get_openapi_spec_for_connection
              (IntegrationClient (project cfg) (location cfg) (integration cfg) (trigger cfg)
                 (connection cfg) (entity_operations cfg) (actions cfg)
                 (service_account_json cfg))
              (tool_name cfg) (ti @ connection_directive cfg details)]"
    by (simp add: init_connection [OF assms(1) tc assms(4)] assms(5,6) bnd_call_Inr
          str_iadd_def bnd_lift_Inr fst_bnd_call parse_no_spec_provider_call
        split: sum.splits)
  with directive_serviceName [where details = details and ti = ti and cfg = cfg]
    directive_host [where details = details and ti = ti and cfg = cfg]
    directive_resource_path [OF assms(2), where details = details and ti = ti]
  show ?thesis by blast
qed

theorem connection_mode_calls_witness:
  "\<not> (truthy (integration connection_cfg) \<and> truthy (trigger connection_cfg))
   \<and> connection connection_cfg = Some ''c'' \<and> ''c'' \<noteq> []
   \<and> (truthy (entity_operations connection_cfg) \<or> truthy (actions connection_cfg))
   \<and> tool_instructions connection_cfg = Some []
   \<and> get_connection_details stub_env
        (ConnectionsClient (project connection_cfg) (location connection_cfg)
           (connection connection_cfg) (service_account_json connection_cfg)) =
       Inr \<lparr>serviceName = ''s'', host = ''h''\<rparr>
   \<and> filter is_spec_provider_call (fst (init stub_env connection_cfg)) =
       [Get_connection_details
          (ConnectionsClient (project connection_cfg) (location connection_cfg)
             (connection connection_cfg) (service_account_json connection_cfg)),
        Get_openapi_spec_for_connection
          (IntegrationClient (project connection_cfg) (location connection_cfg)
             (integration connection_cfg) (trigger connection_cfg)
             (connection connection_cfg) (entity_operations connection_cfg)
             (actions connection_cfg) (service_account_json connection_cfg))
          (tool_name connection_cfg)
          ([] @ connection_directive connection_cfg \<lparr>serviceName = ''s'', host = ''h''\<rparr>)]
   \<and> sublist ''s'' ([] @ connection_directive connection_cfg \<lparr>serviceName = ''s'', host = ''h''\<rparr>)
   \<and> sublist ''h'' ([] @ connection_directive connection_cfg \<lparr>serviceName = ''s'', host = ''h''\<rparr>)
   \<and> sublist (''projects/'' @ project connection_cfg @ ''/locations/''
               @ location connection_cfg @ ''/connections/'' @ ''c'')
        ([] @ connection_directive connection_cfg \<lparr>serviceName = ''s'', host = ''h''\<rparr>)"
proof -
  have h1: "\<not> (truthy (integration connection_cfg) \<and> truthy (trigger connection_cfg))"
    by (simp add: connection_cfg_def no_arguments_def truthy_def)
  have h2: "connection connection_cfg = Some ''c''"
    by (simp add: connection_cfg_def no_arguments_def)
  have h3: "''c'' \<noteq> []" by simp
  have h4: "truthy (entity_operations connection_cfg) \<or> truthy (actions connection_cfg)"
    by (simp add: connection_cfg_def no_arguments_def truthy_def)
  have h5: "tool_instructions connection_cfg = Some []"
    by (simp add: connection_cfg_def no_arguments_def)
  have h6: "get_connection_details stub_env
        (ConnectionsClient (project connection_cfg) (location connection_cfg)
           (connection connection_cfg) (service_account_json connection_cfg)) =
       Inr \<lparr>serviceName = ''s'', host = ''h''\<rparr>"
    by (simp add: stub_env_def)
  note t = connection_mode_calls [OF h1 h2 h3 h4 h5 h6]
  have s: "serviceName \<lparr>serviceName = ''s'', host = ''h''\<rparr> = ''s''"
          "host \<lparr>serviceName = ''s'', host = ''h''\<rparr> = ''h''"
    by simp_all
  from t h1 h2 h3 h4 h5 h6 show ?thesis
    unfolding s by blast
qed

text \<open>The instructions of the spec's example, in full.\<close>

lemma connection_directive_example:
  "connection_directive connection_cfg \<lparr>serviceName = ''s'', host = ''h''\<rparr> =
     ''ALWAYS use serviceName = s, host = h and the connection name = ''
     @ ''projects/p/locations/us-central1/connections/c when using this tool''
     @ ''. DONOT ask the user for these values as you already have those.''"
  by (simp add: connection_directive_def connection_cfg_def no_arguments_def format_str_def)

subsection \<open>C4: the resolved scheme and credential\<close>

text \<open>
  C4: the resolved pair is what construction hands to the parser. For every
  construction without a service-account JSON, the parser calls of the construction all
  carry the credential that asks for the default credential and the HTTP bearer scheme
  of format JWT; for every construction with a JSON that parses, they all carry the
  credential that wraps the parsed service-account credential and the scheme of the
  service-account helper. Both credentials carry exactly the scope
  \<^verbatim>\<open>https://www.googleapis.com/auth/cloud-platform\<close>. The call is made whenever the
  document has been obtained, in integration mode and in connection mode.
\<close>

theorem resolved_auth:
  fixes env :: "('d, 'k, 's, 'b) env"
  shows
  "(\<not> truthy (service_account_json cfg) \<longrightarrow>
      (\<exists>ds. filter is_parser_call (fst (init env cfg)) =
         map (\<lambda>d. OpenAPIToolset_get_tools d
                \<lparr>auth_type = SERVICE_ACCOUNT, service_account = \<lparr>service_account_credential = None, scopes = [''https://www.googleapis.com/auth/cloud-platform''], use_default_credential = Some True\<rparr>\<rparr>
                (HTTPBearer (Some ''JWT''))) ds))
   \<and> (service_account_json cfg = Some j \<and> j \<noteq> []
       \<and> model_validate_json env j = Inr k \<longrightarrow>
      (\<exists>ds. filter is_parser_call (fst (init env cfg)) =
         map (\<lambda>d. OpenAPIToolset_get_tools d
                \<lparr>auth_type = SERVICE_ACCOUNT, service_account = \<lparr>service_account_credential = Some k, scopes = [''https://www.googleapis.com/auth/cloud-platform''], use_default_credential = Some False\<rparr>\<rparr>
                (HelperScheme (helper_scheme env \<lparr>service_account_credential = Some k, scopes = [''https://www.googleapis.com/auth/cloud-platform''], use_default_credential = Some False\<rparr>))) ds))
   \<and> (((truthy (integration cfg) \<and> truthy (trigger cfg)
       \<and> get_openapi_spec_for_integration env
           (IntegrationClient (project cfg) (location cfg) (integration cfg) (trigger cfg) (connection cfg) (entity_operations cfg) (actions cfg) (service_account_json cfg)) = Inr d)
     \<or> (\<not> (truthy (integration cfg) \<and> truthy (trigger cfg))
       \<and> truthy (connection cfg)
       \<and> (truthy (entity_operations cfg) \<or> truthy (actions cfg))
       \<and> get_connection_details env
           (ConnectionsClient (project cfg) (location cfg) (connection cfg) (service_account_json cfg)) = Inr details
       \<and> tool_instructions cfg = Some ti
       \<and> get_openapi_spec_for_connection env
           (IntegrationClient (project cfg) (location cfg) (integration cfg) (trigger cfg) (connection cfg) (entity_operations cfg) (actions cfg) (service_account_json cfg))
           (tool_name cfg) (ti @ connection_directive cfg details) = Inr d))
       \<and> \<not> truthy (service_account_json cfg) \<longrightarrow>
      OpenAPIToolset_get_tools d
           \<lparr>auth_type = SERVICE_ACCOUNT, service_account = \<lparr>service_account_credential = None, scopes = [''https://www.googleapis.com/auth/cloud-platform''], use_default_credential = Some True\<rparr>\<rparr>
           (HTTPBearer (Some ''JWT''))
         \<in> set (fst (init env cfg)))
   \<and> (((truthy (integration cfg) \<and> truthy (trigger cfg)
       \<and> get_openapi_spec_for_integration env
           (IntegrationClient (project cfg) (location cfg) (integration cfg) (trigger cfg) (connection cfg) (entity_operations cfg) (actions cfg) (service_account_json cfg)) = Inr d)
     \<or> (\<not> (truthy (integration cfg) \<and> truthy (trigger cfg))
       \<and> truthy (connection cfg)
       \<and> (truthy (entity_operations cfg) \<or> truthy (actions cfg))
       \<and> get_connection_details env
           (ConnectionsClient (project cfg) (location cfg) (connection cfg) (service_account_json cfg)) = Inr details
       \<and> tool_instructions cfg = Some ti
       \<and> get_openapi_spec_for_connection env
           (IntegrationClient (project cfg) (location cfg) (integration cfg) (trigger cfg) (connection cfg) (entity_operations cfg) (actions cfg) (service_account_json cfg))
           (tool_name cfg) (ti @ connection_directive cfg details) = Inr d))
       \<and> service_account_json cfg = Some j \<and> j \<noteq> []
       \<and> model_validate_json env j = Inr k \<longrightarrow>
      OpenAPIToolset_get_tools d
           \<lparr>auth_type = SERVICE_ACCOUNT, service_account = \<lparr>service_account_credential = Some k, scopes = [''https://www.googleapis.com/auth/cloud-platform''], use_default_credential = Some False\<rparr>\<rparr>
           (HelperScheme (helper_scheme env \<lparr>service_account_credential = Some k, scopes = [''https://www.googleapis.com/auth/cloud-platform''], use_default_credential = Some False\<rparr>))
         \<in> set (fst (init env cfg)))"
proof -
  have a: "\<not> truthy (service_account_json cfg) \<longrightarrow>
      (\<exists>ds. filter is_parser_call (fst (init env cfg)) =
         map (\<lambda>d. OpenAPIToolset_get_tools d
                \<lparr>auth_type = SERVICE_ACCOUNT, service_account = \<lparr>service_account_credential = None, scopes = [''https://www.googleapis.com/auth/cloud-platform''], use_default_credential = Some True\<rparr>\<rparr>
                (HTTPBearer (Some ''JWT''))) ds)"
  proof
    assume n: "\<not> truthy (service_account_json cfg)"
    have "\<forall>d a s. OpenAPIToolset_get_tools d a s \<in> set (fst (init env cfg)) \<longrightarrow>
            a = \<lparr>auth_type = SERVICE_ACCOUNT, service_account = \<lparr>service_account_credential = None, scopes = [''https://www.googleapis.com/auth/cloud-platform''], use_default_credential = Some True\<rparr>\<rparr>
            \<and> s = HTTPBearer (Some ''JWT'')"
    proof (intro allI impI)
      fix d a s
      assume e: "OpenAPIToolset_get_tools d a s \<in> set (fst (init env cfg))"
      from init_auth_default [OF n e] show
        "a = \<lparr>auth_type = SERVICE_ACCOUNT, service_account = \<lparr>service_account_credential = None, scopes = [''https://www.googleapis.com/auth/cloud-platform''], use_default_credential = Some True\<rparr>\<rparr>
         \<and> s = HTTPBearer (Some ''JWT'')" .
    qed
    then show "(\<exists>ds. filter is_parser_call (fst (init env cfg)) =
         map (\<lambda>d. OpenAPIToolset_get_tools d
                \<lparr>auth_type = SERVICE_ACCOUNT, service_account = \<lparr>service_account_credential = None, scopes = [''https://www.googleapis.com/auth/cloud-platform''], use_default_credential = Some True\<rparr>\<rparr>
                (HTTPBearer (Some ''JWT''))) ds)"
      by (rule parser_calls_map)
  qed
  have b: "service_account_json cfg = Some j \<and> j \<noteq> []
       \<and> model_validate_json env j = Inr k \<longrightarrow>
      (\<exists>ds. filter is_parser_call (fst (init env cfg)) =
         map (\<lambda>d. OpenAPIToolset_get_tools d
                \<lparr>auth_type = SERVICE_ACCOUNT, service_account = \<lparr>service_account_credential = Some k, scopes = [''https://www.googleapis.com/auth/cloud-platform''], use_default_credential = Some False\<rparr>\<rparr>
                (HelperScheme (helper_scheme env \<lparr>service_account_credential = Some k, scopes = [''https://www.googleapis.com/auth/cloud-platform''], use_default_credential = Some False\<rparr>))) ds)"
  proof
    assume h: "service_account_json cfg = Some j \<and> j \<noteq> []
       \<and> model_validate_json env j = Inr k"
    from h have j1: "service_account_json cfg = Some j" and j2: "j \<noteq> []"
      and j3: "model_validate_json env j = Inr k"
      by blast+
    have "\<forall>d a s. OpenAPIToolset_get_tools d a s \<in> set (fst (init env cfg)) \<longrightarrow>
            a = \<lparr>auth_type = SERVICE_ACCOUNT, service_account = \<lparr>service_account_credential = Some k, scopes = [''https://www.googleapis.com/auth/cloud-platform''], use_default_credential = Some False\<rparr>\<rparr>
            \<and> s = HelperScheme (helper_scheme env \<lparr>service_account_credential = Some k, scopes = [''https://www.googleapis.com/auth/cloud-platform''], use_default_credential = Some False\<rparr>)"
    proof (intro allI impI)
      fix d a s
      assume e: "OpenAPIToolset_get_tools d a s \<in> set (fst (init env cfg))"
      from init_auth_service_account [OF j1 j2 j3 e] show
        "a = \<lparr>auth_type = SERVICE_ACCOUNT, service_account = \<lparr>service_account_credential = Some k, scopes = [''https://www.googleapis.com/auth/cloud-platform''], use_default_credential = Some False\<rparr>\<rparr>
         \<and> s = HelperScheme (helper_scheme env \<lparr>service_account_credential = Some k, scopes = [''https://www.googleapis.com/auth/cloud-platform''], use_default_credential = Some False\<rparr>)" .
    qed
    then show "(\<exists>ds. filter is_parser_call (fst (init env cfg)) =
         map (\<lambda>d. OpenAPIToolset_get_tools d
                \<lparr>auth_type = SERVICE_ACCOUNT, service_account = \<lparr>service_account_credential = Some k, scopes = [''https://www.googleapis.com/auth/cloud-platform''], use_default_credential = Some False\<rparr>\<rparr>
                (HelperScheme (helper_scheme env \<lparr>service_account_credential = Some k, scopes = [''https://www.googleapis.com/auth/cloud-platform''], use_default_credential = Some False\<rparr>))) ds)"
      by (rule parser_calls_map)
  qed
  have c: "((truthy (integration cfg) \<and> truthy (trigger cfg)
       \<and> get_openapi_spec_for_integration env
           (IntegrationClient (project cfg) (location cfg) (integration cfg) (trigger cfg) (connection cfg) (entity_operations cfg) (actions cfg) (service_account_json cfg)) = Inr d)
     \<or> (\<not> (truthy (integration cfg) \<and> truthy (trigger cfg))
       \<and> truthy (connection cfg)
       \<and> (truthy (entity_operations cfg) \<or> truthy (actions cfg))
       \<and> get_connection_details env
           (ConnectionsClient (project cfg) (location cfg) (connection cfg) (service_account_json cfg)) = Inr details
       \<and> tool_instructions cfg = Some ti
       \<and> get_openapi_spec_for_connection env
           (IntegrationClient (project cfg) (location cfg) (integration cfg) (trigger cfg) (connection cfg) (entity_operations cfg) (actions cfg) (service_account_json cfg))
           (tool_name cfg) (ti @ connection_directive cfg details) = Inr d))
       \<and> \<not> truthy (service_account_json cfg) \<longrightarrow>
      OpenAPIToolset_get_tools d
           \<lparr>auth_type = SERVICE_ACCOUNT, service_account = \<lparr>service_account_credential = None, scopes = [''https://www.googleapis.com/auth/cloud-platform''], use_default_credential = Some True\<rparr>\<rparr>
           (HTTPBearer (Some ''JWT''))
         \<in> set (fst (init env cfg))"
  proof (intro impI)
    assume h: "((truthy (integration cfg) \<and> truthy (trigger cfg)
       \<and> get_openapi_spec_for_integration env
           (IntegrationClient (project cfg) (location cfg) (integration cfg) (trigger cfg) (connection cfg) (entity_operations cfg) (actions cfg) (service_account_json cfg)) = Inr d)
     \<or> (\<not> (truthy (integration cfg) \<and> truthy (trigger cfg))
       \<and> truthy (connection cfg)
       \<and> (truthy (entity_operations cfg) \<or> truthy (actions cfg))
       \<and> get_connection_details env
           (ConnectionsClient (project cfg) (location cfg) (connection cfg) (service_account_json cfg)) = Inr details
       \<and> tool_instructions cfg = Some ti
       \<and> get_openapi_spec_for_connection env
           (IntegrationClient (project cfg) (location cfg) (integration cfg) (trigger cfg) (connection cfg) (entity_operations cfg) (actions cfg) (service_account_json cfg))
           (tool_name cfg) (ti @ connection_directive cfg details) = Inr d))
       \<and> \<not> truthy (service_account_json cfg)"
    from h have n: "\<not> truthy (service_account_json cfg)"
      by (rule conjunct2)
    from h have "((truthy (integration cfg) \<and> truthy (trigger cfg)
       \<and> get_openapi_spec_for_integration env
           (IntegrationClient (project cfg) (location cfg) (integration cfg) (trigger cfg) (connection cfg) (entity_operations cfg) (actions cfg) (service_account_json cfg)) = Inr d)
     \<or> (\<not> (truthy (integration cfg) \<and> truthy (trigger cfg))
       \<and> truthy (connection cfg)
       \<and> (truthy (entity_operations cfg) \<or> truthy (actions cfg))
       \<and> get_connection_details env
           (ConnectionsClient (project cfg) (location cfg) (connection cfg) (service_account_json cfg)) = Inr details
       \<and> tool_instructions cfg = Some ti
       \<and> get_openapi_spec_for_connection env
           (IntegrationClient (project cfg) (location cfg) (integration cfg) (trigger cfg) (connection cfg) (entity_operations cfg) (actions cfg) (service_account_json cfg))
           (tool_name cfg) (ti @ connection_directive cfg details) = Inr d))"
      by (rule conjunct1)
    then show "OpenAPIToolset_get_tools d
           \<lparr>auth_type = SERVICE_ACCOUNT, service_account = \<lparr>service_account_credential = None, scopes = [''https://www.googleapis.com/auth/cloud-platform''], use_default_credential = Some True\<rparr>\<rparr>
           (HTTPBearer (Some ''JWT''))
         \<in> set (fst (init env cfg))"
    proof (rule disjE)
      assume i: "truthy (integration cfg) \<and> truthy (trigger cfg)
       \<and> get_openapi_spec_for_integration env
           (IntegrationClient (project cfg) (location cfg) (integration cfg) (trigger cfg) (connection cfg) (entity_operations cfg) (actions cfg) (service_account_json cfg)) = Inr d"
      note t = init_trace_integration [OF conjunct1 [OF i] conjunct1 [OF conjunct2 [OF i]]
          conjunct2 [OF conjunct2 [OF i]]]
      show ?thesis
        by (simp add: t parse_trace_default n)
    next
      assume k: "\<not> (truthy (integration cfg) \<and> truthy (trigger cfg))
       \<and> truthy (connection cfg)
       \<and> (truthy (entity_operations cfg) \<or> truthy (actions cfg))
       \<and> get_connection_details env
           (ConnectionsClient (project cfg) (location cfg) (connection cfg) (service_account_json cfg)) = Inr details
       \<and> tool_instructions cfg = Some ti
       \<and> get_openapi_spec_for_connection env
           (IntegrationClient (project cfg) (location cfg) (integration cfg) (trigger cfg) (connection cfg) (entity_operations cfg) (actions cfg) (service_account_json cfg))
           (tool_name cfg) (ti @ connection_directive cfg details) = Inr d"
      from k have k1: "\<not> (truthy (integration cfg) \<and> truthy (trigger cfg))"
        and k2: "truthy (connection cfg)"
        and k3: "truthy (entity_operations cfg) \<or> truthy (actions cfg)"
        and k4: "get_connection_details env
                   (ConnectionsClient (project cfg) (location cfg) (connection cfg) (service_account_json cfg)) = Inr details"
        and k5: "tool_instructions cfg = Some ti"
        and k6: "get_openapi_spec_for_connection env
                   (IntegrationClient (project cfg) (location cfg) (integration cfg) (trigger cfg) (connection cfg) (entity_operations cfg) (actions cfg) (service_account_json cfg))
                   (tool_name cfg) (ti @ connection_directive cfg details) = Inr d"
        by blast+
      note t = init_trace_connection [OF k1 k2 k3 k4 k5 k6]
      show ?thesis
        by (simp add: t parse_trace_default n)
    qed
  qed
  have d: "((truthy (integration cfg) \<and> truthy (trigger cfg)
       \<and> get_openapi_spec_for_integration env
           (IntegrationClient (project cfg) (location cfg) (integration cfg) (trigger cfg) (connection cfg) (entity_operations cfg) (actions cfg) (service_account_json cfg)) = Inr d)
     \<or> (\<not> (truthy (integration cfg) \<and> truthy (trigger cfg))
       \<and> truthy (connection cfg)
       \<and> (truthy (entity_operations cfg) \<or> truthy (actions cfg))
       \<and> get_connection_details env
           (ConnectionsClient (project cfg) (location cfg) (connection cfg) (service_account_json cfg)) = Inr details
       \<and> tool_instructions cfg = Some ti
       \<and> get_openapi_spec_for_connection env
           (IntegrationClient (project cfg) (location cfg) (integration cfg) (trigger cfg) (connection cfg) (entity_operations cfg) (actions cfg) (service_account_json cfg))
           (tool_name cfg) (ti @ connection_directive cfg details) = Inr d))
       \<and> service_account_json cfg = Some j \<and> j \<noteq> []
       \<and> model_validate_json env j = Inr k \<longrightarrow>
      OpenAPIToolset_get_tools d
           \<lparr>auth_type = SERVICE_ACCOUNT, service_account = \<lparr>service_account_credential = Some k, scopes = [''https://www.googleapis.com/auth/cloud-platform''], use_default_credential = Some False\<rparr>\<rparr>
           (HelperScheme (helper_scheme env \<lparr>service_account_credential = Some k, scopes = [''https://www.googleapis.com/auth/cloud-platform''], use_default_credential = Some False\<rparr>))
         \<in> set (fst (init env cfg))"
  proof (intro impI)
    assume h: "((truthy (integration cfg) \<and> truthy (trigger cfg)
       \<and> get_openapi_spec_for_integration env
           (IntegrationClient (project cfg) (location cfg) (integration cfg) (trigger cfg) (connection cfg) (entity_operations cfg) (actions cfg) (service_account_json cfg)) = Inr d)
     \<or> (\<not> (truthy (integration cfg) \<and> truthy (trigger cfg))
       \<and> truthy (connection cfg)
       \<and> (truthy (entity_operations cfg) \<or> truthy (actions cfg))
       \<and> get_connection_details env
           (ConnectionsClient (project cfg) (location cfg) (connection cfg) (service_account_json cfg)) = Inr details
       \<and> tool_instructions cfg = Some ti
       \<and> get_openapi_spec_for_connection env
           (IntegrationClient (project cfg) (location cfg) (integration cfg) (trigger cfg) (connection cfg) (entity_operations cfg) (actions cfg) (service_account_json cfg))
           (tool_name cfg) (ti @ connection_directive cfg details) = Inr d))
       \<and> service_account_json cfg = Some j \<and> j \<noteq> []
       \<and> model_validate_json env j = Inr k"
    from h have j1: "service_account_json cfg = Some j" and j2: "j \<noteq> []"
      and j3: "model_validate_json env j = Inr k"
      by blast+
    from h have "((truthy (integration cfg) \<and> truthy (trigger cfg)
       \<and> get_openapi_spec_for_integration env
           (IntegrationClient (project cfg) (location cfg) (integration cfg) (trigger cfg) (connection cfg) (entity_operations cfg) (actions cfg) (service_account_json cfg)) = Inr d)
     \<or> (\<not> (truthy (integration cfg) \<and> truthy (trigger cfg))
       \<and> truthy (connection cfg)
       \<and> (truthy (entity_operations cfg) \<or> truthy (actions cfg))
       \<and> get_connection_details env
           (ConnectionsClient (project cfg) (location cfg) (connection cfg) (service_account_json cfg)) = Inr details
       \<and> tool_instructions cfg = Some ti
       \<and> get_openapi_spec_for_connection env
           (IntegrationClient (project cfg) (location cfg) (integration cfg) (trigger cfg) (connection cfg) (entity_operations cfg) (actions cfg) (service_account_json cfg))
           (tool_name cfg) (ti @ connection_directive cfg details) = Inr d))"
      by (rule conjunct1)
    then show "OpenAPIToolset_get_tools d
           \<lparr>auth_type = SERVICE_ACCOUNT, service_account = \<lparr>service_account_credential = Some k, scopes = [''https://www.googleapis.com/auth/cloud-platform''], use_default_credential = Some False\<rparr>\<rparr>
           (HelperScheme (helper_scheme env \<lparr>service_account_credential = Some k, scopes = [''https://www.googleapis.com/auth/cloud-platform''], use_default_credential = Some False\<rparr>))
         \<in> set (fst (init env cfg))"
    proof (rule disjE)
      assume i: "truthy (integration cfg) \<and> truthy (trigger cfg)
       \<and> get_openapi_spec_for_integration env
           (IntegrationClient (project cfg) (location cfg) (integration cfg) (trigger cfg) (connection cfg) (entity_operations cfg) (actions cfg) (service_account_json cfg)) = Inr d"
      note t = init_trace_integration [OF conjunct1 [OF i] conjunct1 [OF conjunct2 [OF i]]
          conjunct2 [OF conjunct2 [OF i]]]
      show ?thesis
        by (simp add: t parse_trace_service_account [where j = j and k = k] j1 j2 j3)
    next
      assume k: "\<not> (truthy (integration cfg) \<and> truthy (trigger cfg))
       \<and> truthy (connection cfg)
       \<and> (truthy (entity_operations cfg) \<or> truthy (actions cfg))
       \<and> get_connection_details env
           (ConnectionsClient (project cfg) (location cfg) (connection cfg) (service_account_json cfg)) = Inr details
       \<and> tool_instructions cfg = Some ti
       \<and> get_openapi_spec_for_connection env
           (IntegrationClient (project cfg) (location cfg) (integration cfg) (trigger cfg) (connection cfg) (entity_operations cfg) (actions cfg) (service_account_json cfg))
           (tool_name cfg) (ti @ connection_directive cfg details) = Inr d"
      from k have k1: "\<not> (truthy (integration cfg) \<and> truthy (trigger cfg))"
        and k2: "truthy (connection cfg)"
        and k3: "truthy (entity_operations cfg) \<or> truthy (actions cfg)"
        and k4: "get_connection_details env
                   (ConnectionsClient (project cfg) (location cfg) (connection cfg) (service_account_json cfg)) = Inr details"
        and k5: "tool_instructions cfg = Some ti"
        and k6: "get_openapi_spec_for_connection env
                   (IntegrationClient (project cfg) (location cfg) (integration cfg) (trigger cfg) (connection cfg) (entity_operations cfg) (actions cfg) (service_account_json cfg))
                   (tool_name cfg) (ti @ connection_directive cfg details) = Inr d"
        by blast+
      note t = init_trace_connection [OF k1 k2 k3 k4 k5 k6]
      show ?thesis
        by (simp add: t parse_trace_service_account [where j = j and k = k] j1 j2 j3)
    qed
  qed
  from a b c d show ?thesis by blast
qed

theorem resolved_auth_witness:
  "\<not> truthy (service_account_json integration_cfg)
   \<and> (\<exists>ds. filter is_parser_call (fst (init stub_env integration_cfg)) =
         map (\<lambda>d. OpenAPIToolset_get_tools d
                \<lparr>auth_type = SERVICE_ACCOUNT, service_account = \<lparr>service_account_credential = None, scopes = [''https://www.googleapis.com/auth/cloud-platform''], use_default_credential = Some True\<rparr>\<rparr>
                (HTTPBearer (Some ''JWT''))) ds)
   \<and> (service_account_json integration_json_cfg = Some ''{}'' \<and> ''{}'' \<noteq> []
       \<and> model_validate_json stub_env ''{}'' = Inr ''{}'')
   \<and> (\<exists>ds. filter is_parser_call (fst (init stub_env integration_json_cfg)) =
         map (\<lambda>d. OpenAPIToolset_get_tools d
                \<lparr>auth_type = SERVICE_ACCOUNT, service_account = \<lparr>service_account_credential = Some ''{}'', scopes = [''https://www.googleapis.com/auth/cloud-platform''], use_default_credential = Some False\<rparr>\<rparr>
                (HelperScheme (helper_scheme stub_env \<lparr>service_account_credential = Some ''{}'', scopes = [''https://www.googleapis.com/auth/cloud-platform''], use_default_credential = Some False\<rparr>))) ds)
   \<and> (((truthy (integration integration_cfg) \<and> truthy (trigger integration_cfg)
       \<and> get_openapi_spec_for_integration stub_env
           (IntegrationClient (project integration_cfg) (location integration_cfg) (integration integration_cfg) (trigger integration_cfg) (connection integration_cfg) (entity_operations integration_cfg) (actions integration_cfg) (service_account_json integration_cfg)) = Inr [''op1'', ''op2''])
     \<or> (\<not> (truthy (integration integration_cfg) \<and> truthy (trigger integration_cfg))
       \<and> truthy (connection integration_cfg)
       \<and> (truthy (entity_operations integration_cfg) \<or> truthy (actions integration_cfg))
       \<and> get_connection_details stub_env
           (ConnectionsClient (project integration_cfg) (location integration_cfg) (connection integration_cfg) (service_account_json integration_cfg)) = Inr \<lparr>serviceName = ''s'', host = ''h''\<rparr>
       \<and> tool_instructions integration_cfg = Some []
       \<and> get_openapi_spec_for_connection stub_env
           (IntegrationClient (project integration_cfg) (location integration_cfg) (integration integration_cfg) (trigger integration_cfg) (connection integration_cfg) (entity_operations integration_cfg) (actions integration_cfg) (service_account_json integration_cfg))
           (tool_name integration_cfg) ([] @ connection_directive integration_cfg \<lparr>serviceName = ''s'', host = ''h''\<rparr>) = Inr [''op1'', ''op2'']))
       \<and> \<not> truthy (service_account_json integration_cfg))
   \<and> OpenAPIToolset_get_tools [''op1'', ''op2'']
           \<lparr>auth_type = SERVICE_ACCOUNT, service_account = \<lparr>service_account_credential = None, scopes = [''https://www.googleapis.com/auth/cloud-platform''], use_default_credential = Some True\<rparr>\<rparr>
           (HTTPBearer (Some ''JWT''))
         \<in> set (fst (init stub_env integration_cfg))
   \<and> (((truthy (integration connection_json_cfg) \<and> truthy (trigger connection_json_cfg)
       \<and> get_openapi_spec_for_integration stub_env
           (IntegrationClient (project connection_json_cfg) (location connection_json_cfg) (integration connection_json_cfg) (trigger connection_json_cfg) (connection connection_json_cfg) (entity_operations connection_json_cfg) (actions connection_json_cfg) (service_account_json connection_json_cfg)) = Inr [''op1'', ''op2''])
     \<or> (\<not> (truthy (integration connection_json_cfg) \<and> truthy (trigger connection_json_cfg))
       \<and> truthy (connection connection_json_cfg)
       \<and> (truthy (entity_operations connection_json_cfg) \<or> truthy (actions connection_json_cfg))
       \<and> get_connection_details stub_env
           (ConnectionsClient (project connection_json_cfg) (location connection_json_cfg) (connection connection_json_cfg) (service_account_json connection_json_cfg)) = Inr \<lparr>serviceName = ''s'', host = ''h''\<rparr>
       \<and> tool_instructions connection_json_cfg = Some []
       \<and> get_openapi_spec_for_connection stub_env
           (IntegrationClient (project connection_json_cfg) (location connection_json_cfg) (integration connection_json_cfg) (trigger connection_json_cfg) (connection connection_json_cfg) (entity_operations connection_json_cfg) (actions connection_json_cfg) (service_account_json connection_json_cfg))
           (tool_name connection_json_cfg) ([] @ connection_directive connection_json_cfg \<lparr>serviceName = ''s'', host = ''h''\<rparr>) = Inr [''op1'', ''op2'']))
       \<and> service_account_json connection_json_cfg = Some ''{}'' \<and> ''{}'' \<noteq> []
       \<and> model_validate_json stub_env ''{}'' = Inr ''{}'')
   \<and> OpenAPIToolset_get_tools [''op1'', ''op2'']
           \<lparr>auth_type = SERVICE_ACCOUNT, service_account = \<lparr>service_account_credential = Some ''{}'', scopes = [''https://www.googleapis.com/auth/cloud-platform''], use_default_credential = Some False\<rparr>\<rparr>
           (HelperScheme (helper_scheme stub_env \<lparr>service_account_credential = Some ''{}'', scopes = [''https://www.googleapis.com/auth/cloud-platform''], use_default_credential = Some False\<rparr>))
         \<in> set (fst (init stub_env connection_json_cfg))"
proof -
  have h1: "\<not> truthy (service_account_json integration_cfg)"
    by (simp add: integration_cfg_def no_arguments_def truthy_def)
  have h2: "service_account_json integration_json_cfg = Some ''{}'' \<and> ''{}'' \<noteq> []
       \<and> model_validate_json stub_env ''{}'' = Inr ''{}''"
    by (simp add: integration_json_cfg_def integration_cfg_def no_arguments_def stub_env_def)
  have h3: "((truthy (integration integration_cfg) \<and> truthy (trigger integration_cfg)
       \<and> get_openapi_spec_for_integration stub_env
           (IntegrationClient (project integration_cfg) (location integration_cfg) (integration integration_cfg) (trigger integration_cfg) (connection integration_cfg) (entity_operations integration_cfg) (actions integration_cfg) (service_account_json integration_cfg)) = Inr [''op1'', ''op2''])
     \<or> (\<not> (truthy (integration integration_cfg) \<and> truthy (trigger integration_cfg))
       \<and> truthy (connection integration_cfg)
       \<and> (truthy (entity_operations integration_cfg) \<or> truthy (actions integration_cfg))
       \<and> get_connection_details stub_env
           (ConnectionsClient (project integration_cfg) (location integration_cfg) (connection integration_cfg) (service_account_json integration_cfg)) = Inr \<lparr>serviceName = ''s'', host = ''h''\<rparr>
       \<and> tool_instructions integration_cfg = Some []
       \<and> get_openapi_spec_for_connection stub_env
           (IntegrationClient (project integration_cfg) (location integration_cfg) (integration integration_cfg) (trigger integration_cfg) (connection integration_cfg) (entity_operations integration_cfg) (actions integration_cfg) (service_account_json integration_cfg))
           (tool_name integration_cfg) ([] @ connection_directive integration_cfg \<lparr>serviceName = ''s'', host = ''h''\<rparr>) = Inr [''op1'', ''op2'']))
       \<and> \<not> truthy (service_account_json integration_cfg)"
    by (simp add: integration_cfg_def no_arguments_def truthy_def stub_env_def)
  have h4: "((truthy (integration connection_json_cfg) \<and> truthy (trigger connection_json_cfg)
       \<and> get_openapi_spec_for_integration stub_env
           (IntegrationClient (project connection_json_cfg) (location connection_json_cfg) (integration connection_json_cfg) (trigger connection_json_cfg) (connection connection_json_cfg) (entity_operations connection_json_cfg) (actions connection_json_cfg) (service_account_json connection_json_cfg)) = Inr [''op1'', ''op2''])
     \<or> (\<not> (truthy (integration connection_json_cfg) \<and> truthy (trigger connection_json_cfg))
       \<and> truthy (connection connection_json_cfg)
       \<and> (truthy (entity_operations connection_json_cfg) \<or> truthy (actions connection_json_cfg))
       \<and> get_connection_details stub_env
           (ConnectionsClient (project connection_json_cfg) (location connection_json_cfg) (connection connection_json_cfg) (service_account_json connection_json_cfg)) = Inr \<lparr>serviceName = ''s'', host = ''h''\<rparr>
       \<and> tool_instructions connection_json_cfg = Some []
       \<and> get_openapi_spec_for_connection stub_env
           (IntegrationClient (project connection_json_cfg) (location connection_json_cfg) (integration connection_json_cfg) (trigger connection_json_cfg) (connection connection_json_cfg) (entity_operations connection_json_cfg) (actions connection_json_cfg) (service_account_json connection_json_cfg))
           (tool_name connection_json_cfg) ([] @ connection_directive connection_json_cfg \<lparr>serviceName = ''s'', host = ''h''\<rparr>) = Inr [''op1'', ''op2'']))
       \<and> service_account_json connection_json_cfg = Some ''{}'' \<and> ''{}'' \<noteq> []
       \<and> model_validate_json stub_env ''{}'' = Inr ''{}''"
    by (simp add: connection_json_cfg_def connection_cfg_def no_arguments_def truthy_def
          stub_env_def)
  note A = resolved_auth [where env = stub_env and cfg = integration_cfg,
      THEN conjunct1, THEN mp, OF h1]
  note B = resolved_auth [where env = stub_env and cfg = integration_json_cfg
      and j = "''{}''" and k = "''{}''", THEN conjunct2, THEN conjunct1, THEN mp, OF h2]
  note C = resolved_auth [where env = stub_env and cfg = integration_cfg
      and d = "[''op1'', ''op2'']" and details = "\<lparr>serviceName = ''s'', host = ''h''\<rparr>" and ti = "[]",
      THEN conjunct2, THEN conjunct2, THEN conjunct1, THEN mp, OF h3]
  note D = resolved_auth [where env = stub_env and cfg = connection_json_cfg
      and d = "[''op1'', ''op2'']" and details = "\<lparr>serviceName = ''s'', host = ''h''\<rparr>" and ti = "[]"
      and j = "''{}''" and k = "''{}''",
      THEN conjunct2, THEN conjunct2, THEN conjunct2, THEN mp, OF h4]
  from h1 h2 h3 h4 A B C D show ?thesis by blast
qed

subsection \<open>C5: both selector forms at once\<close>

text \<open>
  C5 as stated makes a configuration with both selector forms invalid. The code has no
  such check: the integration branch is tried first and taken, so with the stubs of the
  example a configuration that has both forms is constructed and offers its two tools.
\<close>

theorem both_selectors_counterexample:
  "truthy (integration both_cfg) \<and> truthy (trigger both_cfg)
   \<and> truthy (connection both_cfg) \<and> truthy (actions both_cfg)
   \<and> map_sum id (\<lambda>self. map name (snd (get_tools self))) (snd (init stub_env both_cfg)) =
       Inr [''op1'', ''op2'']"
  by (simp add: both_cfg_def integration_cfg_def no_arguments_def init_def Let_def
        truthy_def bnd_def call_def ret_def parse_spec_to_tools_def stub_env_def
        register_tools_def get_tools_def dict_values_def new_self_def)

text \<open>
  C5, amended: when both selector forms hold, validation does not fail and integration
  mode takes precedence: construction is the request of the integration document
  followed by the parsing, \<^verbatim>\<open>get_openapi_spec_for_integration\<close> is the only call to the
  Spec Provider, and the outcome is not the validation failure.
\<close>

theorem both_selectors_integration_mode:
  assumes "truthy (integration cfg) \<and> truthy (trigger cfg)"
      and "truthy (connection cfg) \<and> (truthy (entity_operations cfg) \<or> truthy (actions cfg))"
  shows "init env cfg =
           bnd (call (Get_openapi_spec_for_integration
                        (IntegrationClient (project cfg) (location cfg) (integration cfg)
                           (trigger cfg) (connection cfg) (entity_operations cfg)
                           (actions cfg) (service_account_json cfg)))
                  (get_openapi_spec_for_integration env
                     (IntegrationClient (project cfg) (location cfg) (integration cfg)
                        (trigger cfg) (connection cfg) (entity_operations cfg)
                        (actions cfg) (service_account_json cfg))))
             (parse_spec_to_tools env (new_self cfg))
         \<and> filter is_spec_provider_call (fst (init env cfg)) =
             [Get_openapi_spec_for_integration
                (IntegrationClient (project cfg) (location cfg) (integration cfg)
                   (trigger cfg) (connection cfg) (entity_operations cfg) (actions cfg)
                   (service_account_json cfg))]
         \<and> init env cfg \<noteq> ([], Inl config_error)"
proof -
  note e = init_integration [OF conjunct1 [OF assms(1)] conjunct2 [OF assms(1)], of env]
  have f: "filter is_spec_provider_call (fst (init env cfg)) =
             [Get_openapi_spec_for_integration
                (IntegrationClient (project cfg) (location cfg) (integration cfg)
                   (trigger cfg) (connection cfg) (entity_operations cfg) (actions cfg)
                   (service_account_json cfg))]"
    by (simp add: e fst_bnd_call parse_no_spec_provider_call split: sum.splits)
  have "fst (init env cfg) \<noteq> []"
    by (simp add: e fst_bnd_call)
  then have n: "init env cfg \<noteq> ([], Inl config_error)"
    by auto
  from e f n show ?thesis by blast
qed

theorem both_selectors_integration_mode_witness:
  "(truthy (integration both_cfg) \<and> truthy (trigger both_cfg))
   \<and> (truthy (connection both_cfg)
       \<and> (truthy (entity_operations both_cfg) \<or> truthy (actions both_cfg)))
   \<and> filter is_spec_provider_call (fst (init stub_env both_cfg)) =
       [Get_openapi_spec_for_integration
          (IntegrationClient (project both_cfg) (location both_cfg) (integration both_cfg)
             (trigger both_cfg) (connection both_cfg) (entity_operations both_cfg)
             (actions both_cfg) (service_account_json both_cfg))]
   \<and> init stub_env both_cfg \<noteq> ([], Inl config_error)"
proof -
  have h1: "truthy (integration both_cfg) \<and> truthy (trigger both_cfg)"
    by (simp add: both_cfg_def integration_cfg_def no_arguments_def truthy_def)
  have h2: "truthy (connection both_cfg)
            \<and> (truthy (entity_operations both_cfg) \<or> truthy (actions both_cfg))"
    by (simp add: both_cfg_def integration_cfg_def no_arguments_def truthy_def)
  note t = both_selectors_integration_mode [OF h1 h2, of stub_env]
  from t h1 h2 show ?thesis by blast
qed

subsection \<open>C6: no selector\<close>

text \<open>
  C6: when neither (integration and trigger) nor (connection and (entity_operations or
  actions)) holds, construction raises the ValueError before any call: the trace is
  empty, so the Spec Provider has been called zero times.
\<close>

theorem init_no_selector_raises:
  assumes "\<not> (truthy (integration cfg) \<and> truthy (trigger cfg))"
      and "\<not> (truthy (connection cfg)
              \<and> (truthy (entity_operations cfg) \<or> truthy (actions cfg)))"
  shows "init env cfg =
           ([], Inl (ValueError (''Either (integration and trigger) or (connection and''
                                 @ '' (entity_operations or actions)) should be provided.'')))
         \<and> filter is_spec_provider_call (fst (init env cfg)) = []"
  using assms by (simp add: init_no_selector config_error_def)

theorem init_no_selector_raises_witness:
  "\<not> (truthy (integration no_arguments) \<and> truthy (trigger no_arguments))
   \<and> \<not> (truthy (connection no_arguments)
         \<and> (truthy (entity_operations no_arguments) \<or> truthy (actions no_arguments)))
   \<and> init stub_env no_arguments =
       ([], Inl (ValueError (''Either (integration and trigger) or (connection and''
                             @ '' (entity_operations or actions)) should be provided.'')))
   \<and> filter is_spec_provider_call (fst (init stub_env no_arguments)) = []"
proof -
  have h1: "\<not> (truthy (integration no_arguments) \<and> truthy (trigger no_arguments))"
    by (simp add: no_arguments_def truthy_def)
  have h2: "\<not> (truthy (connection no_arguments)
         \<and> (truthy (entity_operations no_arguments) \<or> truthy (actions no_arguments)))"
    by (simp add: no_arguments_def truthy_def)
  note t = init_no_selector_raises [OF h1 h2, of stub_env]
  from t h1 h2 show ?thesis by blast
qed

subsection \<open>C7: a service-account JSON that does not parse\<close>

text \<open>
  C7 as stated promises a parsing error whenever the payload is supplied and malformed.
  The code tests the truth value of the payload before it parses it, so a payload that
  is given and empty is never parsed, although it is not a service-account credential:
  construction succeeds with the default credential. And the payload is parsed only
  after the document has been fetched: with no selector and the malformed payload
  \<^verbatim>\<open>{\<close>, construction raises the ValueError of the validation, not a parsing error.
\<close>

theorem malformed_json_counterexample:
  "service_account_json integration_empty_json_cfg = Some []
   \<and> model_validate_json stub_env [] = Inl (ValidationError ''Invalid JSON'')
   \<and> map_sum id (\<lambda>self. map name (snd (get_tools self)))
         (snd (init stub_env integration_empty_json_cfg)) = Inr [''op1'', ''op2'']
   \<and> service_account_json bad_json_cfg = Some ''{''
   \<and> model_validate_json stub_env ''{'' = Inl (ValidationError ''Invalid JSON'')
   \<and> init stub_env bad_json_cfg = ([], Inl config_error)
   \<and> config_error \<noteq> ValidationError ''Invalid JSON''"
  by (simp add: integration_empty_json_cfg_def integration_cfg_def bad_json_cfg_def
        no_arguments_def init_def Let_def truthy_def raise_def bnd_def call_def ret_def
        parse_spec_to_tools_def stub_env_def register_tools_def get_tools_def
        dict_values_def new_self_def config_error_def)

text \<open>
  C7, amended: for every construction whose service-account JSON is not empty and does
  not parse, construction fails, the parser is never called and so no registry is
  built or returned. The failure is the parsing error whenever the document has been
  obtained: in integration mode when \<^verbatim>\<open>get_openapi_spec_for_integration\<close> returns it, in
  connection mode when \<^verbatim>\<open>get_connection_details\<close> returns, \<^verbatim>\<open>tool_instructions\<close> is a
  string and \<^verbatim>\<open>get_openapi_spec_for_connection\<close> returns it.
\<close>

theorem malformed_json_aborts:
  fixes env :: "('d, 'k, 's, 'b) env"
  assumes "service_account_json cfg = Some j" and "j \<noteq> []"
      and "model_validate_json env j = Inl e"
  shows "isl (snd (init env cfg))
         \<and> filter is_parser_call (fst (init env cfg)) = []
         \<and> (truthy (integration cfg) \<and> truthy (trigger cfg)
             \<and> get_openapi_spec_for_integration env
                 (IntegrationClient (project cfg) (location cfg) (integration cfg)
                    (trigger cfg) (connection cfg) (entity_operations cfg) (actions cfg)
                    (service_account_json cfg)) = Inr d \<longrightarrow>
            init env cfg =
              ([Get_openapi_spec_for_integration
                  (IntegrationClient (project cfg) (location cfg) (integration cfg)
                     (trigger cfg) (connection cfg) (entity_operations cfg) (actions cfg)
                     (service_account_json cfg)),
                Model_validate_json j],
               Inl e))
         \<and> (\<not> (truthy (integration cfg) \<and> truthy (trigger cfg))
             \<and> truthy (connection cfg)
             \<and> (truthy (entity_operations cfg) \<or> truthy (actions cfg))
             \<and> get_connection_details env
                 (ConnectionsClient (project cfg) (location cfg) (connection cfg)
                    (service_account_json cfg)) = Inr details
             \<and> tool_instructions cfg = Some ti
             \<and> get_openapi_spec_for_connection env
                 (IntegrationClient (project cfg) (location cfg) (integration cfg)
                    (trigger cfg) (connection cfg) (entity_operations cfg) (actions cfg)
                    (service_account_json cfg))
                 (tool_name cfg) (ti @ connection_directive cfg details) = Inr d \<longrightarrow>
            init env cfg =
              ([Get_connection_details
                  (ConnectionsClient (project cfg) (location cfg) (connection cfg)
                     (service_account_json cfg)),
                Get_openapi_spec_for_connection
                  (IntegrationClient (project cfg) (location cfg) (integration cfg)
                     (trigger cfg) (connection cfg) (entity_operations cfg) (actions cfg)
                     (service_account_json cfg))
                  (tool_name cfg) (ti @ connection_directive cfg details),
                Model_validate_json j],
               Inl e))"
proof -
  have t: "truthy (service_account_json (new_self cfg :: 'b toolset))"
    using assms(1,2) by (simp add: truthy_def)
  have pm: "\<And>d. parse_spec_to_tools env (new_self cfg :: 'b toolset) d =
              ([Model_validate_json j], Inl e)"
    using parse_malformed [OF t, of env e] assms(1,3) by simp
  have 1: "isl (snd (init env cfg)) \<and> filter is_parser_call (fst (init env cfg)) = []"
  proof (cases "truthy (integration cfg) \<and> truthy (trigger cfg)")
    case True
    then show ?thesis
      by (simp add: init_integration fst_bnd_call snd_bnd_call pm split: sum.splits)
  next
    case no_integration: False
    show ?thesis
    proof (cases "truthy (connection cfg)
                  \<and> (truthy (entity_operations cfg) \<or> truthy (actions cfg))")
      case True
      show ?thesis
        unfolding init_connection [OF no_integration conjunct1 [OF True] conjunct2 [OF True]]
        by (simp add: bnd_def call_def lift_def pm split: sum.splits)
    next
      case False
      with no_integration show ?thesis
        by (simp add: init_no_selector)
    qed
  qed
  have 2: "truthy (integration cfg) \<and> truthy (trigger cfg)
             \<and> get_openapi_spec_for_integration env
                 (IntegrationClient (project cfg) (location cfg) (integration cfg)
                    (trigger cfg) (connection cfg) (entity_operations cfg) (actions cfg)
                    (service_account_json cfg)) = Inr d \<Longrightarrow>
            init env cfg =
              ([Get_openapi_spec_for_integration
                  (IntegrationClient (project cfg) (location cfg) (integration cfg)
                     (trigger cfg) (connection cfg) (entity_operations cfg) (actions cfg)
                     (service_account_json cfg)),
                Model_validate_json j],
               Inl e)"
    by (simp add: init_integration bnd_call_Inr pm)
  have 3: "\<not> (truthy (integration cfg) \<and> truthy (trigger cfg))
             \<and> truthy (connection cfg)
             \<and> (truthy (entity_operations cfg) \<or> truthy (actions cfg))
             \<and> get_connection_details env
                 (ConnectionsClient (project cfg) (location cfg) (connection cfg)
                    (service_account_json cfg)) = Inr details
             \<and> tool_instructions cfg = Some ti
             \<and> get_openapi_spec_for_connection env
                 (IntegrationClient (project cfg) (location cfg) (integration cfg)
                    (trigger cfg) (connection cfg) (entity_operations cfg) (actions cfg)
                    (service_account_json cfg))
                 (tool_name cfg) (ti @ connection_directive cfg details) = Inr d \<Longrightarrow>
            init env cfg =
              ([Get_connection_details
                  (ConnectionsClient (project cfg) (location cfg) (connection cfg)
                     (service_account_json cfg)),
                Get_openapi_spec_for_connection
                  (IntegrationClient (project cfg) (location cfg) (integration cfg)
                     (trigger cfg) (connection cfg) (entity_operations cfg) (actions cfg)
                     (service_account_json cfg))
                  (tool_name cfg) (ti @ connection_directive cfg details),
                Model_validate_json j],
               Inl e)"
    by (simp add: init_connection bnd_call_Inr bnd_lift_Inr str_iadd_def pm)
  from 1 2 3 show ?thesis by blast
qed

theorem malformed_json_aborts_witness:
  "service_account_json integration_bad_json_cfg = Some ''{'' \<and> ''{'' \<noteq> []
   \<and> model_validate_json stub_env ''{'' = Inl (ValidationError ''Invalid JSON'')
   \<and> (truthy (integration integration_bad_json_cfg)
       \<and> truthy (trigger integration_bad_json_cfg)
       \<and> get_openapi_spec_for_integration stub_env
           (IntegrationClient (project integration_bad_json_cfg)
              (location integration_bad_json_cfg) (integration integration_bad_json_cfg)
              (trigger integration_bad_json_cfg) (connection integration_bad_json_cfg)
              (entity_operations integration_bad_json_cfg)
              (actions integration_bad_json_cfg)
              (service_account_json integration_bad_json_cfg)) = Inr [''op1'', ''op2''])
   \<and> isl (snd (init stub_env integration_bad_json_cfg))
   \<and> filter is_parser_call (fst (init stub_env integration_bad_json_cfg)) = []
   \<and> init stub_env integration_bad_json_cfg =
       ([Get_openapi_spec_for_integration
           (IntegrationClient (project integration_bad_json_cfg)
              (location integration_bad_json_cfg) (integration integration_bad_json_cfg)
              (trigger integration_bad_json_cfg) (connection integration_bad_json_cfg)
              (entity_operations integration_bad_json_cfg)
              (actions integration_bad_json_cfg)
              (service_account_json integration_bad_json_cfg)),
         Model_validate_json ''{''],
        Inl (ValidationError ''Invalid JSON''))"
proof -
  have h1: "service_account_json integration_bad_json_cfg = Some ''{''"
    by (simp add: integration_bad_json_cfg_def integration_cfg_def no_arguments_def)
  have h2: "''{'' \<noteq> []" by simp
  have h3: "model_validate_json stub_env ''{'' = Inl (ValidationError ''Invalid JSON'')"
    by (simp add: stub_env_def)
  have h4: "truthy (integration integration_bad_json_cfg)
       \<and> truthy (trigger integration_bad_json_cfg)
       \<and> get_openapi_spec_for_integration stub_env
           (IntegrationClient (project integration_bad_json_cfg)
              (location integration_bad_json_cfg) (integration integration_bad_json_cfg)
              (trigger integration_bad_json_cfg) (connection integration_bad_json_cfg)
              (entity_operations integration_bad_json_cfg)
              (actions integration_bad_json_cfg)
              (service_account_json integration_bad_json_cfg)) = Inr [''op1'', ''op2'']"
    by (simp add: integration_bad_json_cfg_def integration_cfg_def no_arguments_def
          truthy_def stub_env_def)
  note t = malformed_json_aborts [OF h1 h2 h3, where d = "[''op1'', ''op2'']"]
  from t h1 h2 h3 h4 show ?thesis by blast
qed

subsection \<open>C8: the calls of integration mode\<close>

text \<open>
  C8: for every valid integration-mode configuration the Spec Provider is called exactly
  once during construction, by \<^verbatim>\<open>get_openapi_spec_for_integration\<close>, and
  \<^verbatim>\<open>get_connection_details\<close> is not called.
\<close>

theorem integration_mode_calls:
  assumes "truthy (integration cfg)" and "truthy (trigger cfg)"
  shows "filter is_spec_provider_call (fst (init env cfg)) =
           [Get_openapi_spec_for_integration
              (IntegrationClient (project cfg) (location cfg) (integration cfg)
                 (trigger cfg) (connection cfg) (entity_operations cfg) (actions cfg)
                 (service_account_json cfg))]
         \<and> (\<forall>cc. Get_connection_details cc \<notin> set (fst (init env cfg)))"
proof -
  note e = init_integration [OF assms, of env]
  have a: "filter is_spec_provider_call (fst (init env cfg)) =
           [Get_openapi_spec_for_integration
              (IntegrationClient (project cfg) (location cfg) (integration cfg)
                 (trigger cfg) (connection cfg) (entity_operations cfg) (actions cfg)
                 (service_account_json cfg))]"
    by (simp add: e fst_bnd_call parse_no_spec_provider_call split: sum.splits)
  have b: "\<forall>cc. Get_connection_details cc \<notin> set (fst (init env cfg))"
    by (auto simp: e fst_bnd_call dest: parse_trace_not_provider split: sum.splits)
  from a b show ?thesis by blast
qed

theorem integration_mode_calls_witness:
  "truthy (integration integration_cfg) \<and> truthy (trigger integration_cfg)
   \<and> filter is_spec_provider_call (fst (init stub_env integration_cfg)) =
       [Get_openapi_spec_for_integration
          (IntegrationClient (project integration_cfg) (location integration_cfg)
             (integration integration_cfg) (trigger integration_cfg)
             (connection integration_cfg) (entity_operations integration_cfg)
             (actions integration_cfg) (service_account_json integration_cfg))]
   \<and> (\<forall>cc. Get_connection_details cc \<notin> set (fst (init stub_env integration_cfg)))"
proof -
  have h1: "truthy (integration integration_cfg)"
    by (simp add: integration_cfg_def no_arguments_def truthy_def)
  have h2: "truthy (trigger integration_cfg)"
    by (simp add: integration_cfg_def no_arguments_def truthy_def)
  note t = integration_mode_calls [OF h1 h2, of stub_env]
  from t h1 h2 show ?thesis by blast
qed

subsection \<open>C9: repeated calls of get_tools\<close>

text \<open>
  C9: \<^verbatim>\<open>get_tools\<close> leaves the instance as it is, so a second call, and a call after
  any number of calls, returns the sequence the first call returned. This holds for
  every instance, a successfully constructed one in particular.
\<close>

theorem get_tools_idempotent:
  "fst (get_tools self) = self
   \<and> snd (get_tools (fst (get_tools self))) = snd (get_tools self)
   \<and> snd (get_tools (((\<lambda>s. fst (get_tools s)) ^^ n) self)) = snd (get_tools self)"
proof -
  have "((\<lambda>s. fst (get_tools s)) ^^ n) self = self"
    by (induction n) (simp_all add: get_tools_def)
  then show ?thesis by (simp add: get_tools_def)
qed

subsection \<open>C10: tool_name and tool_instructions in integration mode\<close>

text \<open>
  C10: for every valid integration-mode configuration, changing \<^verbatim>\<open>tool_name\<close> and
  \<^verbatim>\<open>tool_instructions\<close> changes neither the calls made during construction (the
  request to the Spec Provider carries the client built from the other eight
  arguments) nor the tools that \<^verbatim>\<open>get_tools\<close> returns.
\<close>

theorem integration_mode_ignores_tool_name_and_instructions:
  assumes "truthy (integration cfg)" and "truthy (trigger cfg)"
  shows "fst (init env (cfg\<lparr>tool_name := tn, tool_instructions := ti\<rparr>)) = fst (init env cfg)
         \<and> map_sum id (\<lambda>self. snd (get_tools self))
             (snd (init env (cfg\<lparr>tool_name := tn, tool_instructions := ti\<rparr>))) =
           map_sum id (\<lambda>self. snd (get_tools self)) (snd (init env cfg))
         \<and> filter is_spec_provider_call
             (fst (init env (cfg\<lparr>tool_name := tn, tool_instructions := ti\<rparr>))) =
           [Get_openapi_spec_for_integration
              (IntegrationClient (project cfg) (location cfg) (integration cfg)
                 (trigger cfg) (connection cfg) (entity_operations cfg) (actions cfg)
                 (service_account_json cfg))]"
proof -
  let ?cfg' = "cfg\<lparr>tool_name := tn, tool_instructions := ti\<rparr>"
  have t: "truthy (integration ?cfg')" "truthy (trigger ?cfg')"
    using assms by simp_all
  note e = init_integration [OF assms, of env]
  have e': "init env ?cfg' =
      bnd (call (Get_openapi_spec_for_integration
                  (IntegrationClient (project cfg) (location cfg) (integration cfg)
                     (trigger cfg) (connection cfg) (entity_operations cfg) (actions cfg)
                     (service_account_json cfg)))
            (get_openapi_spec_for_integration env
               (IntegrationClient (project cfg) (location cfg) (integration cfg)
                  (trigger cfg) (connection cfg) (entity_operations cfg) (actions cfg)
                  (service_account_json cfg))))
       (parse_spec_to_tools env (new_self ?cfg'))"
    using init_integration [OF t, of env] by simp
  have pf: "\<And>d. fst (parse_spec_to_tools env (new_self ?cfg') d) =
                 fst (parse_spec_to_tools env (new_self cfg) d)
              \<and> map_sum id (\<lambda>s. snd (get_tools s))
                  (snd (parse_spec_to_tools env (new_self ?cfg') d)) =
                map_sum id (\<lambda>s. snd (get_tools s))
                  (snd (parse_spec_to_tools env (new_self cfg) d))"
    by (rule parse_frame) (simp_all add: new_self_def)
  have a: "fst (init env ?cfg') = fst (init env cfg)"
    by (simp add: e e' fst_bnd_call pf split: sum.splits)
  have b: "map_sum id (\<lambda>self. snd (get_tools self)) (snd (init env ?cfg')) =
           map_sum id (\<lambda>self. snd (get_tools self)) (snd (init env cfg))"
    by (simp add: e e' snd_bnd_call pf split: sum.splits)
  have c: "filter is_spec_provider_call (fst (init env cfg)) =
           [Get_openapi_spec_for_integration
              (IntegrationClient (project cfg) (location cfg) (integration cfg)
                 (trigger cfg) (connection cfg) (entity_operations cfg) (actions cfg)
                 (service_account_json cfg))]"
    by (simp add: e fst_bnd_call parse_no_spec_provider_call split: sum.splits)
  from a b c show ?thesis by simp
qed

theorem integration_mode_ignores_tool_name_and_instructions_witness:
  "truthy (integration integration_cfg) \<and> truthy (trigger integration_cfg)
   \<and> fst (init stub_env
            (integration_cfg\<lparr>tool_name := Some ''crm'', tool_instructions := None\<rparr>)) =
       fst (init stub_env integration_cfg)
   \<and> map_sum id (\<lambda>self. snd (get_tools self))
       (snd (init stub_env
               (integration_cfg\<lparr>tool_name := Some ''crm'', tool_instructions := None\<rparr>))) =
     map_sum id (\<lambda>self. snd (get_tools self)) (snd (init stub_env integration_cfg))"
proof -
  have h1: "truthy (integration integration_cfg)"
    by (simp add: integration_cfg_def no_arguments_def truthy_def)
  have h2: "truthy (trigger integration_cfg)"
    by (simp add: integration_cfg_def no_arguments_def truthy_def)
  note t = integration_mode_ignores_tool_name_and_instructions
      [OF h1 h2, where env = stub_env and tn = "Some ''crm''" and ti = None]
  from t h1 h2 show ?thesis by blast
qed


end
